theory Spec2Isabelle
  imports Main "HOL-Library.Word" "HOL-Library.AList"
begin

unbundle bit_operations_syntax

section \<open>Basic types of the interop service\<close>

text \<open>
  Bytes are 8-bit words, byte slices are lists. \<open>util.Uint160\<close> and \<open>util.Uint256\<close>
  are fixed-size byte arrays; they are kept as byte lists whose length the decoders check.
  Every Go \<open>error\<close> value of the handlers is one constructor of \<open>error\<close>; the message
  of the source is given beside it.
\<close>

type_synonym byte = "8 word"
type_synonym bytes = "byte list"
type_synonym Uint160 = bytes
type_synonym Uint256 = bytes

datatype error =
    WrongHandleType           \<comment> \<open>"%T is not a StorageContext", "... is not an asset state", ...\<close>
  | DecodeError               \<comment> \<open>error of \<open>Uint160DecodeBytes\<close> / \<open>Uint256DecodeReverseBytes\<close>\<close>
  | InvalidBlockIndex         \<comment> \<open>"bad block index"\<close>
  | KeyTooLarge               \<comment> \<open>"key is too big"\<close>
  | ReadOnlyContext           \<comment> \<open>"StorageContext is read only"\<close>
  | ConstViolation            \<comment> \<open>"storage item is constant", "storage item exists and is read-only"\<close>
  | NoContractFound           \<comment> \<open>"no contract found"\<close>
  | NoStorageCapability       \<comment> \<open>"contract can't have storage"\<close>
  | TriggerNotApplication     \<comment> \<open>"can't ... when (the trigger is) not (triggered by) application"\<close>
  | WitnessCheckFailed        \<comment> \<open>"witness check didn't succeed"\<close>
  | FieldTooLarge             \<comment> \<open>"the script is too big", "too big name", ...\<close>
  | InvalidAssetField         \<comment> \<open>the asset type, amount, precision and owner errors\<close>
  | NotFound                  \<comment> \<open>"can't renew non-existent asset", and a ledger lookup that misses\<close>
  | StoreError                \<comment> \<open>an error handed up by the store or the ledger\<close>

record StorageContext =
  ScriptHash :: Uint160
  ReadOnly :: bool

record StorageItem =
  Value :: bytes
  IsConst :: bool

record ContractState =
  Script :: bytes
  ParamList :: "64 word list"
  ReturnType :: "64 word"
  Properties :: byte
  Name :: bytes
  CodeVersion :: bytes
  Author :: bytes
  Email :: bytes
  Description :: bytes

text \<open>
  Modelled from the spec: the property flags of a contract (\<open>smartcontract.PropertyState\<close>)
  are not under src/; "properties (has-storage / is-payable flags)". The has-storage flag is
  bit 0 of the properties byte.
\<close>

definition HasStorage :: "ContractState \<Rightarrow> bool" where
  "HasStorage cs = (Properties cs AND 1 \<noteq> 0)"

text \<open>
  Blocks, headers and transactions are only looked up and wrapped by the handlers modelled
  here; their structure plays no role, so they stay abstract.
\<close>

typedecl Block
typedecl Header
typedecl Transaction

record Asset =
  ID :: Uint256
  AssetType :: byte
  AssetName :: bytes
  Amount :: "64 word"
  Precision :: byte
  Owner :: bytes
  Admin :: Uint160
  Issuer :: Uint160
  Expiration :: "32 word"

text \<open>
  What \<open>Element.Value()\<close> returns for a popped element: the wrapped domain object of an
  interop item, or something else (\<open>INone\<close>) on which every type assertion fails.
\<close>

datatype iface =
    IStorageContext StorageContext
  | IContractState ContractState
  | IAsset Asset
  | IBlock Block
  | IHeader Header
  | ITransaction Transaction
  | INone

text \<open>What a handler hands to \<open>v.Estack().PushVal\<close>.\<close>

datatype pushed =
    PBytes bytes
  | PInt int
  | PBool bool
  | PInterop iface

text \<open>
  A popped element, by the views the handlers take of it: \<open>Bytes()\<close> and \<open>BigInt()\<close>.
  A handler that takes one view only receives that view as its argument, in the order
  of its pops; the value it pushes is part of its result.
\<close>

record Element =
  Bytes :: bytes
  BigInt :: int

text \<open>
  \<open>big.Int.Int64()\<close> keeps the low 64 bits of an integer that does not fit (its
  magnitude is cut to 64 bits and negated in \<open>int64\<close> arithmetic, which is the same
  value); Go's conversion \<open>byte(x)\<close> of an \<open>int64\<close> keeps the low 8 bits.
\<close>

definition Int64 :: "int \<Rightarrow> 64 word" where
  "Int64 i = word_of_int i"

definition byte_of_int64 :: "64 word \<Rightarrow> byte" where
  "byte_of_int64 w = ucast w"

text \<open>
  Modelled from the spec: the hash decoders of package \<open>util\<close> are not under src/;
  "a 20-byte script hash", "a full reversed 32-byte hash".
\<close>

definition Uint160DecodeBytes :: "bytes \<Rightarrow> error + Uint160" where
  "Uint160DecodeBytes b = (if length b \<noteq> 20 then Inl DecodeError else Inr b)"

definition Uint256DecodeReverseBytes :: "bytes \<Rightarrow> error + Uint256" where
  "Uint256DecodeReverseBytes b = (if length b \<noteq> 32 then Inl DecodeError else Inr (rev b))"

section \<open>The ledger and the staged overlay of \<open>interop_system.go\<close>\<close>

text \<open>
  The \<open>Blockchainer\<close> interface, by the methods the handlers call. A lookup that
  returns \<open>(x, err)\<close> is a sum, one that returns a pointer is an option (\<open>nil\<close> is
  \<open>None\<close>).
\<close>

record Blockchainer =
  GetHeaderHash :: "int \<Rightarrow> Uint256"
  GetBlock :: "Uint256 \<Rightarrow> error + Block"
  GetHeader :: "Uint256 \<Rightarrow> error + Header"
  GetTransaction :: "Uint256 \<Rightarrow> error + (Transaction \<times> 32 word)"
  GetContractState :: "Uint160 \<Rightarrow> ContractState option"
  GetStorageItem :: "Uint160 \<Rightarrow> bytes \<Rightarrow> StorageItem option"
  GetStorageItems :: "Uint160 \<Rightarrow> error + (bytes \<times> StorageItem) list"

text \<open>
  Modelled from the spec: the store behind \<open>ic.mem\<close> and its helpers
  \<open>getStorageItemFromStore\<close>, \<open>putStorageItemIntoStore\<close>,
  \<open>deleteStorageItemInStore\<close>, \<open>getContractStateFromStore\<close> and
  \<open>deleteContractStateInStore\<close> are not under src/. "the staged-write overlay
  (mapping from (contract-hash, key) to either a present item or a tombstone, used before
  consulting committed storage)"; "staged overlay first; on tombstone or miss, falls to
  committed storage"; put "stages the new item, overwriting any previous stage entry";
  delete "stages a tombstone".
\<close>

datatype 'a staged = Present 'a | Tombstone

record MemoryStore =
  stagedItems :: "(Uint160 \<times> bytes) \<Rightarrow> StorageItem staged option"
  stagedContracts :: "Uint160 \<Rightarrow> ContractState staged option"

definition getStorageItemFromStore :: "MemoryStore \<Rightarrow> Uint160 \<Rightarrow> bytes \<Rightarrow> StorageItem option" where
  "getStorageItemFromStore s scripthash key =
     (case stagedItems s (scripthash, key) of
        Some (Present si) \<Rightarrow> Some si
      | Some Tombstone \<Rightarrow> None
      | None \<Rightarrow> None)"

definition putStorageItemIntoStore ::
  "MemoryStore \<Rightarrow> Uint160 \<Rightarrow> bytes \<Rightarrow> StorageItem \<Rightarrow> error + MemoryStore" where
  "putStorageItemIntoStore s scripthash key si =
     Inr (s\<lparr>stagedItems := (stagedItems s)((scripthash, key) \<mapsto> Present si)\<rparr>)"

definition deleteStorageItemInStore :: "MemoryStore \<Rightarrow> Uint160 \<Rightarrow> bytes \<Rightarrow> error + MemoryStore" where
  "deleteStorageItemInStore s scripthash key =
     Inr (s\<lparr>stagedItems := (stagedItems s)((scripthash, key) \<mapsto> Tombstone)\<rparr>)"

definition getContractStateFromStore :: "MemoryStore \<Rightarrow> Uint160 \<Rightarrow> ContractState option" where
  "getContractStateFromStore s hash =
     (case stagedContracts s hash of
        Some (Present cs) \<Rightarrow> Some cs
      | Some Tombstone \<Rightarrow> None
      | None \<Rightarrow> None)"

definition deleteContractStateInStore :: "MemoryStore \<Rightarrow> Uint160 \<Rightarrow> error + MemoryStore" where
  "deleteContractStateInStore s hash =
     Inr (s\<lparr>stagedContracts := (stagedContracts s)(hash \<mapsto> Tombstone)\<rparr>)"

record interopContext =
  bc :: Blockchainer
  trigger :: byte
  mem :: MemoryStore

definition MaxStorageKeyLen :: nat where
  "MaxStorageKeyLen = 1024"

section \<open>Ledger query handlers\<close>

definition getBlockHashFromElement :: "Blockchainer \<Rightarrow> Element \<Rightarrow> error + Uint256" where
  "getBlockHashFromElement chain element =
     (let hashbytes = Bytes element in
      if length hashbytes \<le> 5 then
        (let hashint = sint (Int64 (BigInt element)) in
         if hashint < 0 \<or> hashint > 4294967295 then Inl InvalidBlockIndex
         else Inr (GetHeaderHash chain hashint))
      else Uint256DecodeReverseBytes hashbytes)"

definition bcGetBlock :: "interopContext \<Rightarrow> Element \<Rightarrow> error + pushed" where
  "bcGetBlock ic element =
     (case getBlockHashFromElement (bc ic) element of
        Inl err \<Rightarrow> Inl err
      | Inr hash \<Rightarrow>
          (case GetBlock (bc ic) hash of
             Inl err \<Rightarrow> Inr (PBytes [])
           | Inr block \<Rightarrow> Inr (PInterop (IBlock block))))"

definition bcGetContract :: "interopContext \<Rightarrow> bytes \<Rightarrow> error + pushed" where
  "bcGetContract ic hashbytes =
     (case Uint160DecodeBytes hashbytes of
        Inl err \<Rightarrow> Inl err
      | Inr hash \<Rightarrow>
          (case GetContractState (bc ic) hash of
             None \<Rightarrow> Inr (PBytes [])
           | Some cs \<Rightarrow> Inr (PInterop (IContractState cs))))"

definition bcGetHeader :: "interopContext \<Rightarrow> Element \<Rightarrow> error + pushed" where
  "bcGetHeader ic element =
     (case getBlockHashFromElement (bc ic) element of
        Inl err \<Rightarrow> Inl err
      | Inr hash \<Rightarrow>
          (case GetHeader (bc ic) hash of
             Inl err \<Rightarrow> Inr (PBytes [])
           | Inr header \<Rightarrow> Inr (PInterop (IHeader header))))"

definition getTransactionAndHeight ::
  "Blockchainer \<Rightarrow> bytes \<Rightarrow> error + (Transaction \<times> 32 word)" where
  "getTransactionAndHeight chain hashbytes =
     (case Uint256DecodeReverseBytes hashbytes of
        Inl err \<Rightarrow> Inl err
      | Inr hash \<Rightarrow> GetTransaction chain hash)"

definition bcGetTransaction :: "interopContext \<Rightarrow> bytes \<Rightarrow> error + pushed" where
  "bcGetTransaction ic hashbytes =
     (case getTransactionAndHeight (bc ic) hashbytes of
        Inl err \<Rightarrow> Inl err
      | Inr (tx, h) \<Rightarrow> Inr (PInterop (ITransaction tx)))"

section \<open>Storage handlers\<close>

definition checkStorageContext :: "interopContext \<Rightarrow> StorageContext \<Rightarrow> error option" where
  "checkStorageContext ic stc =
     (case GetContractState (bc ic) (ScriptHash stc) of
        None \<Rightarrow> Some NoContractFound
      | Some contract \<Rightarrow>
          if \<not> HasStorage contract then Some NoStorageCapability else None)"

text \<open>
  The lookup that \<open>storageDelete\<close>, \<open>storageGet\<close> and \<open>putWithContextAndFlags\<close>
  each start with: \<open>getStorageItemFromStore(ic.mem, ...)\<close>, and
  \<open>ic.bc.GetStorageItem\<close> when that gives \<open>nil\<close>.
\<close>

definition lookupStorageItem :: "interopContext \<Rightarrow> Uint160 \<Rightarrow> bytes \<Rightarrow> StorageItem option" where
  "lookupStorageItem ic scripthash key =
     (case getStorageItemFromStore (mem ic) scripthash key of
        None \<Rightarrow> GetStorageItem (bc ic) scripthash key
      | Some si \<Rightarrow> Some si)"

definition storageDelete :: "interopContext \<Rightarrow> iface \<Rightarrow> bytes \<Rightarrow> error + interopContext" where
  "storageDelete ic stcInterface key =
     (if trigger ic \<noteq> 0x10 \<and> trigger ic \<noteq> 0x11 then Inl TriggerNotApplication
      else case stcInterface of
        IStorageContext stc \<Rightarrow>
          if ReadOnly stc then Inl ReadOnlyContext
          else (case checkStorageContext ic stc of
            Some err \<Rightarrow> Inl err
          | None \<Rightarrow>
              (case lookupStorageItem ic (ScriptHash stc) key of
                 Some si \<Rightarrow>
                   if IsConst si then Inl ConstViolation
                   else (case deleteStorageItemInStore (mem ic) (ScriptHash stc) key of
                           Inl err \<Rightarrow> Inl err
                         | Inr m \<Rightarrow> Inr (ic\<lparr>mem := m\<rparr>))
               | None \<Rightarrow>
                   (case deleteStorageItemInStore (mem ic) (ScriptHash stc) key of
                      Inl err \<Rightarrow> Inl err
                    | Inr m \<Rightarrow> Inr (ic\<lparr>mem := m\<rparr>))))
      | _ \<Rightarrow> Inl WrongHandleType)"

text \<open>A \<open>nil\<close> value slice and an empty one are both the empty list.\<close>

definition storageGet :: "interopContext \<Rightarrow> iface \<Rightarrow> bytes \<Rightarrow> error + pushed" where
  "storageGet ic stcInterface key =
     (case stcInterface of
        IStorageContext stc \<Rightarrow>
          (case checkStorageContext ic stc of
             Some err \<Rightarrow> Inl err
           | None \<Rightarrow>
               (case lookupStorageItem ic (ScriptHash stc) key of
                  Some si \<Rightarrow> if Value si \<noteq> [] then Inr (PBytes (Value si)) else Inr (PBytes [])
                | None \<Rightarrow> Inr (PBytes [])))
      | _ \<Rightarrow> Inl WrongHandleType)"

definition putWithContextAndFlags ::
  "interopContext \<Rightarrow> StorageContext \<Rightarrow> bytes \<Rightarrow> bytes \<Rightarrow> bool \<Rightarrow> error + interopContext" where
  "putWithContextAndFlags ic stc key newval isConst =
     (if trigger ic \<noteq> 0x10 \<and> trigger ic \<noteq> 0x11 then Inl TriggerNotApplication
      else if length key > MaxStorageKeyLen then Inl KeyTooLarge
      else if ReadOnly stc then Inl ReadOnlyContext
      else case checkStorageContext ic stc of
        Some err \<Rightarrow> Inl err
      | None \<Rightarrow>
          (let si = (case lookupStorageItem ic (ScriptHash stc) key of
                       Some s \<Rightarrow> s
                     | None \<Rightarrow> \<lparr>Value = [], IsConst = False\<rparr>) in
           if IsConst si then Inl ConstViolation
           else (case putStorageItemIntoStore (mem ic) (ScriptHash stc) key
                        (si\<lparr>Value := newval, IsConst := isConst\<rparr>) of
                   Inl err \<Rightarrow> Inl err
                 | Inr m \<Rightarrow> Inr (ic\<lparr>mem := m\<rparr>))))"

definition storagePutInternal ::
  "interopContext \<Rightarrow> iface \<Rightarrow> bytes \<Rightarrow> bytes \<Rightarrow> int \<Rightarrow> bool \<Rightarrow> error + interopContext" where
  "storagePutInternal ic stcInterface key newval flagInt getFlag =
     (case stcInterface of
        IStorageContext stc \<Rightarrow>
          (let flag = (if getFlag then sint (Int64 flagInt) else 0) in
           putWithContextAndFlags ic stc key newval (flag = 1))
      | _ \<Rightarrow> Inl WrongHandleType)"

definition storageContextAsReadOnly :: "interopContext \<Rightarrow> iface \<Rightarrow> error + pushed" where
  "storageContextAsReadOnly ic stcInterface =
     (case stcInterface of
        IStorageContext stc \<Rightarrow>
          (let stc' = (if \<not> ReadOnly stc
                       then \<lparr>ScriptHash = ScriptHash stc, ReadOnly = True\<rparr>
                       else stc) in
           Inr (PInterop (IStorageContext stc')))
      | _ \<Rightarrow> Inl WrongHandleType)"

section \<open>Example states\<close>

text \<open>
  A ledger with one deployed contract that declares storage, at script hash \<open>h0\<close>; its
  committed storage is a parameter. No block, header or transaction is found in it.
\<close>

definition h0 :: Uint160 where
  "h0 = replicate 20 1"

definition storageContract :: ContractState where
  "storageContract = \<lparr>Script = [0x51], ParamList = [], ReturnType = 0, Properties = 1,
     Name = [], CodeVersion = [], Author = [], Email = [], Description = []\<rparr>"

definition emptyStore :: MemoryStore where
  "emptyStore = \<lparr>stagedItems = (\<lambda>_. None), stagedContracts = (\<lambda>_. None)\<rparr>"

definition exampleChain :: "(Uint160 \<Rightarrow> bytes \<Rightarrow> StorageItem option) \<Rightarrow> Blockchainer" where
  "exampleChain items = \<lparr>GetHeaderHash = (\<lambda>_. replicate 32 0),
     GetBlock = (\<lambda>_. Inl NotFound), GetHeader = (\<lambda>_. Inl NotFound),
     GetTransaction = (\<lambda>_. Inl NotFound),
     GetContractState = (\<lambda>h. if h = h0 then Some storageContract else None),
     GetStorageItem = items,
     GetStorageItems = (\<lambda>_. Inr [])\<rparr>"

definition exampleContext :: "byte \<Rightarrow> (Uint160 \<Rightarrow> bytes \<Rightarrow> StorageItem option) \<Rightarrow> interopContext" where
  "exampleContext t items = \<lparr>bc = exampleChain items, trigger = t, mem = emptyStore\<rparr>"

text \<open>Committed storage holding no item, and holding one item under key \<open>[1]\<close> of \<open>h0\<close>.\<close>

definition noItems :: "Uint160 \<Rightarrow> bytes \<Rightarrow> StorageItem option" where
  "noItems h k = None"

definition oneItem :: "StorageItem \<Rightarrow> Uint160 \<Rightarrow> bytes \<Rightarrow> StorageItem option" where
  "oneItem si h k = (if h = h0 \<and> k = [1] then Some si else None)"

lemma noItems_apply [simp]: "noItems h k = None"
  by (simp add: noItems_def)

lemma HasStorage_storageContract: "HasStorage storageContract"
  by (simp add: HasStorage_def storageContract_def)

lemma checkStorageContext_example [simp]:
  "checkStorageContext (exampleContext t items) \<lparr>ScriptHash = h0, ReadOnly = r\<rparr> = None"
  by (simp add: checkStorageContext_def exampleContext_def exampleChain_def
      HasStorage_storageContract)

lemma lookupStorageItem_example [simp]:
  "lookupStorageItem (exampleContext t items) h k = items h k"
  by (simp add: lookupStorageItem_def getStorageItemFromStore_def exampleContext_def
      exampleChain_def emptyStore_def)

lemma trigger_example [simp]: "trigger (exampleContext t items) = t"
  by (simp add: exampleContext_def)

section \<open>Ledger lookups that miss\<close>

lemma bcGetBlock_miss:
  assumes "getBlockHashFromElement (bc ic) element = Inr hash"
    and "GetBlock (bc ic) hash = Inl err"
  shows "bcGetBlock ic element = Inr (PBytes [])"
  using assms by (simp add: bcGetBlock_def)

lemma bcGetHeader_miss:
  assumes "getBlockHashFromElement (bc ic) element = Inr hash"
    and "GetHeader (bc ic) hash = Inl err"
  shows "bcGetHeader ic element = Inr (PBytes [])"
  using assms by (simp add: bcGetHeader_def)

lemma bcGetContract_miss:
  assumes "length hashbytes = 20"
    and "GetContractState (bc ic) hashbytes = None"
  shows "bcGetContract ic hashbytes = Inr (PBytes [])"
  using assms by (simp add: bcGetContract_def Uint160DecodeBytes_def)

lemma bcGetTransaction_miss:
  assumes "length hashbytes = 32"
    and "GetTransaction (bc ic) (rev hashbytes) = Inl err"
  shows "bcGetTransaction ic hashbytes = Inl err"
  using assms
  by (simp add: bcGetTransaction_def getTransactionAndHeight_def Uint256DecodeReverseBytes_def)

text \<open>
  C1. Every ledger lookup handler is to push an empty value, and not to fail, when the
  entity it looks up is absent. \<open>bcGetBlock\<close>, \<open>bcGetHeader\<close> and \<open>bcGetContract\<close>
  do so (the three lemmas above); \<open>bcGetTransaction\<close> does not: on a ledger that holds
  no transaction, looking up the well-formed 32-byte hash of zeros returns the ledger's
  error instead of pushing anything.
\<close>

theorem bcGetTransaction_absent_is_error:
  "bcGetTransaction (exampleContext 0x10 noItems) (replicate 32 0) = Inl NotFound"
  by (simp add: bcGetTransaction_def getTransactionAndHeight_def Uint256DecodeReverseBytes_def
      exampleContext_def exampleChain_def)

section \<open>Staged writes\<close>

text \<open>The context after one entry has been staged under a key.\<close>

definition stage :: "interopContext \<Rightarrow> Uint160 \<Rightarrow> bytes \<Rightarrow> StorageItem staged \<Rightarrow> interopContext" where
  "stage ic h k e = ic\<lparr>mem := (mem ic)\<lparr>stagedItems := (stagedItems (mem ic))((h, k) \<mapsto> e)\<rparr>\<rparr>"

lemma checkStorageContext_mem [simp]:
  "checkStorageContext (ic\<lparr>mem := m\<rparr>) stc = checkStorageContext ic stc"
  by (simp add: checkStorageContext_def)

lemma StorageItem_overwrite [simp]:
  "(si :: StorageItem)\<lparr>Value := v, IsConst := c\<rparr> = \<lparr>Value = v, IsConst = c\<rparr>"
  by (cases si) simp

lemma put_success:
  "putWithContextAndFlags ic stc k v c = Inr ic' \<longleftrightarrow>
     (trigger ic = 0x10 \<or> trigger ic = 0x11) \<and> length k \<le> MaxStorageKeyLen \<and> \<not> ReadOnly stc \<and>
     checkStorageContext ic stc = None \<and>
     (\<forall>si. lookupStorageItem ic (ScriptHash stc) k = Some si \<longrightarrow> \<not> IsConst si) \<and>
     ic' = stage ic (ScriptHash stc) k (Present \<lparr>Value = v, IsConst = c\<rparr>)"
  unfolding putWithContextAndFlags_def putStorageItemIntoStore_def Let_def stage_def
  by (cases "lookupStorageItem ic (ScriptHash stc) k"; cases "checkStorageContext ic stc") auto

lemma delete_success:
  "storageDelete ic (IStorageContext stc) k = Inr ic' \<longleftrightarrow>
     (trigger ic = 0x10 \<or> trigger ic = 0x11) \<and> \<not> ReadOnly stc \<and>
     checkStorageContext ic stc = None \<and>
     (\<forall>si. lookupStorageItem ic (ScriptHash stc) k = Some si \<longrightarrow> \<not> IsConst si) \<and>
     ic' = stage ic (ScriptHash stc) k Tombstone"
  unfolding storageDelete_def deleteStorageItemInStore_def stage_def
  by (cases "lookupStorageItem ic (ScriptHash stc) k"; cases "checkStorageContext ic stc") auto

lemma checkStorageContext_stage [simp]:
  "checkStorageContext (stage ic h k e) stc = checkStorageContext ic stc"
  by (simp add: stage_def)

lemma lookup_stage_Present [simp]:
  "lookupStorageItem (stage ic h k (Present si)) h k = Some si"
  by (simp add: lookupStorageItem_def getStorageItemFromStore_def stage_def)

lemma lookup_stage_Tombstone [simp]:
  "lookupStorageItem (stage ic h k Tombstone) h k = GetStorageItem (bc ic) h k"
  by (simp add: lookupStorageItem_def getStorageItemFromStore_def stage_def)

lemma bc_stage [simp]: "bc (stage ic h k e) = bc ic"
  by (simp add: stage_def)

text \<open>
  C2. When \<open>put(ctx, k, v, false)\<close> succeeds, \<open>get(ctx, k)\<close> on the resulting context
  returns \<open>v\<close>, and the ledger is what it was: the value comes from the staged store.
  A successful put implies a writable context, a key of at most 1024 bytes and a
  write-eligible trigger (\<open>put_success\<close>).
\<close>

theorem put_then_get:
  assumes "putWithContextAndFlags ic stc k v False = Inr ic'"
  shows "storageGet ic' (IStorageContext stc) k = Inr (PBytes v) \<and> bc ic' = bc ic"
  using assms by (simp add: put_success storageGet_def)

theorem put_then_get_witness:
  "putWithContextAndFlags (exampleContext 0x10 noItems) \<lparr>ScriptHash = h0, ReadOnly = False\<rparr>
       [1] [2, 3] False
     = Inr (stage (exampleContext 0x10 noItems) h0 [1] (Present \<lparr>Value = [2, 3], IsConst = False\<rparr>))
   \<and> storageGet (stage (exampleContext 0x10 noItems) h0 [1]
          (Present \<lparr>Value = [2, 3], IsConst = False\<rparr>))
        (IStorageContext \<lparr>ScriptHash = h0, ReadOnly = False\<rparr>) [1] = Inr (PBytes [2, 3])"
proof -
  have p: "putWithContextAndFlags (exampleContext 0x10 noItems)
             \<lparr>ScriptHash = h0, ReadOnly = False\<rparr> [1] [2, 3] False
           = Inr (stage (exampleContext 0x10 noItems) h0 [1]
               (Present \<lparr>Value = [2, 3], IsConst = False\<rparr>))"
    by (simp add: put_success MaxStorageKeyLen_def)
  from put_then_get [OF p] p show ?thesis by simp
qed

lemma GetStorageItem_example [simp]:
  "GetStorageItem (bc (exampleContext t items)) = items"
  by (simp add: exampleContext_def exampleChain_def)

text \<open>
  C3 as stated: after a successful \<open>delete(ctx, k)\<close>, \<open>get(ctx, k)\<close> returns the empty
  byte sequence and never the committed value. It fails where committed storage holds a
  value under the key: the delete stages a tombstone, the staged store then gives
  \<open>nil\<close> for the key, and \<open>storageGet\<close> falls to the ledger, which still holds
  \<open>[7]\<close>.
\<close>

theorem delete_then_get_stale_counterexample:
  "storageDelete (exampleContext 0x10 (oneItem \<lparr>Value = [7], IsConst = False\<rparr>))
       (IStorageContext \<lparr>ScriptHash = h0, ReadOnly = False\<rparr>) [1]
     = Inr (stage (exampleContext 0x10 (oneItem \<lparr>Value = [7], IsConst = False\<rparr>)) h0 [1] Tombstone)
   \<and> storageGet (stage (exampleContext 0x10 (oneItem \<lparr>Value = [7], IsConst = False\<rparr>)) h0 [1] Tombstone)
       (IStorageContext \<lparr>ScriptHash = h0, ReadOnly = False\<rparr>) [1] = Inr (PBytes [7])
   \<and> storageGet (stage (exampleContext 0x10 (oneItem \<lparr>Value = [7], IsConst = False\<rparr>)) h0 [1] Tombstone)
       (IStorageContext \<lparr>ScriptHash = h0, ReadOnly = False\<rparr>) [1] \<noteq> Inr (PBytes [])"
  by (simp add: delete_success storageGet_def oneItem_def)

text \<open>
  C3, amended: after a successful \<open>delete(ctx, k)\<close>, \<open>get(ctx, k)\<close> returns what
  committed storage holds under the key, and the empty byte sequence when committed
  storage holds nothing there; the tombstone hides the staged value only.
\<close>

theorem delete_then_get:
  assumes "storageDelete ic (IStorageContext stc) k = Inr ic'"
  shows "storageGet ic' (IStorageContext stc) k =
           Inr (PBytes (case GetStorageItem (bc ic) (ScriptHash stc) k of
                          None \<Rightarrow> [] | Some si \<Rightarrow> Value si))"
  using assms by (simp add: delete_success storageGet_def split: option.splits)

theorem delete_then_get_witness:
  "storageGet (stage (exampleContext 0x10 noItems) h0 [1] Tombstone)
       (IStorageContext \<lparr>ScriptHash = h0, ReadOnly = False\<rparr>) [1] = Inr (PBytes [])"
proof -
  have d: "storageDelete (exampleContext 0x10 noItems)
       (IStorageContext \<lparr>ScriptHash = h0, ReadOnly = False\<rparr>) [1]
     = Inr (stage (exampleContext 0x10 noItems) h0 [1] Tombstone)"
    by (simp add: delete_success)
  from delete_then_get [OF d] show ?thesis
    by simp
qed

section \<open>Constant items and read-only contexts\<close>

lemma put_const_error:
  assumes "lookupStorageItem ic (ScriptHash stc) k = Some si" and "IsConst si"
    and "trigger ic = 0x10 \<or> trigger ic = 0x11" and "length k \<le> MaxStorageKeyLen"
    and "\<not> ReadOnly stc" and "checkStorageContext ic stc = None"
  shows "putWithContextAndFlags ic stc k v c = Inl ConstViolation"
  using assms by (auto simp: putWithContextAndFlags_def)

lemma delete_const_error:
  assumes "lookupStorageItem ic (ScriptHash stc) k = Some si" and "IsConst si"
    and "trigger ic = 0x10 \<or> trigger ic = 0x11"
    and "\<not> ReadOnly stc" and "checkStorageContext ic stc = None"
  shows "storageDelete ic (IStorageContext stc) k = Inl ConstViolation"
  using assms by (auto simp: storageDelete_def)

lemma not_Inr_is_Inl: "(\<And>y. x \<noteq> Inr y) \<Longrightarrow> \<exists>e. x = Inl e"
  by (cases x) auto

text \<open>
  C4 as stated: whenever the item found for the key is constant, put fails with the
  \<open>ConstViolation\<close> error. The constant check is the last of the checks of
  \<open>putWithContextAndFlags\<close>: under the Verification trigger \<open>0x00\<close> the put of a
  constant item fails with the trigger error.
\<close>

theorem const_put_other_error_counterexample:
  "lookupStorageItem (exampleContext 0x00 (oneItem \<lparr>Value = [7], IsConst = True\<rparr>)) h0 [1]
      = Some \<lparr>Value = [7], IsConst = True\<rparr>
   \<and> putWithContextAndFlags (exampleContext 0x00 (oneItem \<lparr>Value = [7], IsConst = True\<rparr>))
        \<lparr>ScriptHash = h0, ReadOnly = False\<rparr> [1] [9] False = Inl TriggerNotApplication
   \<and> putWithContextAndFlags (exampleContext 0x00 (oneItem \<lparr>Value = [7], IsConst = True\<rparr>))
        \<lparr>ScriptHash = h0, ReadOnly = False\<rparr> [1] [9] False \<noteq> Inl ConstViolation"
  by (simp add: oneItem_def putWithContextAndFlags_def)

text \<open>
  C4, amended: whenever the item found for the key (staged or, failing that, committed) is
  constant, put fails whatever the new value and flag, and delete fails; neither succeeds,
  so the item is neither overwritten nor removed. The error is \<open>ConstViolation\<close>
  once the checks that come first have passed (the trigger, for put the key length, the
  read-only flag and the validity of the context).
\<close>

theorem const_item_is_immutable:
  assumes "lookupStorageItem ic (ScriptHash stc) k = Some si" and "IsConst si"
  shows "(\<exists>e. putWithContextAndFlags ic stc k v c = Inl e)
       \<and> (\<exists>e. storageDelete ic (IStorageContext stc) k = Inl e)
       \<and> ((trigger ic = 0x10 \<or> trigger ic = 0x11) \<and> length k \<le> MaxStorageKeyLen
            \<and> \<not> ReadOnly stc \<and> checkStorageContext ic stc = None
          \<longrightarrow> putWithContextAndFlags ic stc k v c = Inl ConstViolation)
       \<and> ((trigger ic = 0x10 \<or> trigger ic = 0x11)
            \<and> \<not> ReadOnly stc \<and> checkStorageContext ic stc = None
          \<longrightarrow> storageDelete ic (IStorageContext stc) k = Inl ConstViolation)"
proof -
  have "\<exists>e. putWithContextAndFlags ic stc k v c = Inl e"
    using assms by (intro not_Inr_is_Inl) (simp add: put_success)
  moreover have "\<exists>e. storageDelete ic (IStorageContext stc) k = Inl e"
    using assms by (intro not_Inr_is_Inl) (simp add: delete_success)
  ultimately show ?thesis
    using put_const_error [OF assms] delete_const_error [OF assms] by blast
qed

theorem const_item_is_immutable_witness:
  "lookupStorageItem (exampleContext 0x10 (oneItem \<lparr>Value = [7], IsConst = True\<rparr>)) h0 [1]
      = Some \<lparr>Value = [7], IsConst = True\<rparr>
   \<and> putWithContextAndFlags (exampleContext 0x10 (oneItem \<lparr>Value = [7], IsConst = True\<rparr>))
        \<lparr>ScriptHash = h0, ReadOnly = False\<rparr> [1] [9] False = Inl ConstViolation
   \<and> storageDelete (exampleContext 0x10 (oneItem \<lparr>Value = [7], IsConst = True\<rparr>))
        (IStorageContext \<lparr>ScriptHash = h0, ReadOnly = False\<rparr>) [1] = Inl ConstViolation"
proof -
  have l: "lookupStorageItem (exampleContext 0x10 (oneItem \<lparr>Value = [7], IsConst = True\<rparr>))
             (ScriptHash \<lparr>ScriptHash = h0, ReadOnly = False\<rparr>) [1]
           = Some \<lparr>Value = [7], IsConst = True\<rparr>"
    by (simp add: oneItem_def)
  have c: "IsConst \<lparr>Value = [7], IsConst = True\<rparr>" by simp
  from const_item_is_immutable [OF l c, of "[9]" False] l show ?thesis
    by (simp add: MaxStorageKeyLen_def)
qed

lemma put_read_only_error:
  assumes "ReadOnly stc" and "trigger ic = 0x10 \<or> trigger ic = 0x11"
    and "length k \<le> MaxStorageKeyLen"
  shows "putWithContextAndFlags ic stc k v c = Inl ReadOnlyContext"
  using assms by (auto simp: putWithContextAndFlags_def)

lemma delete_read_only_error:
  assumes "ReadOnly stc" and "trigger ic = 0x10 \<or> trigger ic = 0x11"
  shows "storageDelete ic (IStorageContext stc) k = Inl ReadOnlyContext"
  using assms by (auto simp: storageDelete_def)

lemma asReadOnly_result:
  "storageContextAsReadOnly ic (IStorageContext stc) =
     Inr (PInterop (IStorageContext
       (if ReadOnly stc then stc else \<lparr>ScriptHash = ScriptHash stc, ReadOnly = True\<rparr>)))"
  by (simp add: storageContextAsReadOnly_def)

text \<open>
  C9 as stated: put through a read-only context fails with the \<open>ReadOnlyContext\<close>
  error. \<open>putWithContextAndFlags\<close> checks the trigger and the key length before the
  read-only flag: under the Verification trigger \<open>0x00\<close> the put fails with the
  trigger error.
\<close>

theorem read_only_put_other_error_counterexample:
  "ReadOnly \<lparr>ScriptHash = h0, ReadOnly = True\<rparr>
   \<and> putWithContextAndFlags (exampleContext 0x00 noItems) \<lparr>ScriptHash = h0, ReadOnly = True\<rparr>
        [1] [2] False = Inl TriggerNotApplication
   \<and> putWithContextAndFlags (exampleContext 0x00 noItems) \<lparr>ScriptHash = h0, ReadOnly = True\<rparr>
        [1] [2] False \<noteq> Inl ReadOnlyContext"
  by (simp add: putWithContextAndFlags_def)

text \<open>
  C9, amended: put and delete through a read-only context always fail; the error is
  \<open>ReadOnlyContext\<close> once the trigger is write-eligible (and, for put, the key is at
  most 1024 bytes long). \<open>storageContextAsReadOnly\<close> returns the context itself when
  it is read-only already and otherwise a context with the same script hash and the
  read-only flag set; applied to its own result it returns that result again.
\<close>

theorem read_only_context:
  "(ReadOnly stc \<longrightarrow>
      (\<exists>e. putWithContextAndFlags ic stc k v c = Inl e)
    \<and> (\<exists>e. storageDelete ic (IStorageContext stc) k = Inl e)
    \<and> ((trigger ic = 0x10 \<or> trigger ic = 0x11) \<and> length k \<le> MaxStorageKeyLen
         \<longrightarrow> putWithContextAndFlags ic stc k v c = Inl ReadOnlyContext)
    \<and> ((trigger ic = 0x10 \<or> trigger ic = 0x11)
         \<longrightarrow> storageDelete ic (IStorageContext stc) k = Inl ReadOnlyContext))
   \<and> storageContextAsReadOnly ic (IStorageContext stc) =
        Inr (PInterop (IStorageContext
          (if ReadOnly stc then stc else \<lparr>ScriptHash = ScriptHash stc, ReadOnly = True\<rparr>)))
   \<and> (\<forall>stc'. storageContextAsReadOnly ic (IStorageContext stc) = Inr (PInterop (IStorageContext stc'))
         \<longrightarrow> ReadOnly stc' \<and> ScriptHash stc' = ScriptHash stc
           \<and> storageContextAsReadOnly ic (IStorageContext stc') = Inr (PInterop (IStorageContext stc')))"
proof -
  have "\<exists>e. putWithContextAndFlags ic stc k v c = Inl e" if "ReadOnly stc"
    using that by (intro not_Inr_is_Inl) (simp add: put_success)
  moreover have "\<exists>e. storageDelete ic (IStorageContext stc) k = Inl e" if "ReadOnly stc"
    using that by (intro not_Inr_is_Inl) (simp add: delete_success)
  moreover have "ReadOnly stc' \<and> ScriptHash stc' = ScriptHash stc
           \<and> storageContextAsReadOnly ic (IStorageContext stc') = Inr (PInterop (IStorageContext stc'))"
    if "storageContextAsReadOnly ic (IStorageContext stc) = Inr (PInterop (IStorageContext stc'))"
    for stc'
    using that by (cases "ReadOnly stc") (auto simp: asReadOnly_result)
  ultimately show ?thesis
    using put_read_only_error [of stc ic k v c] delete_read_only_error [of stc ic k]
      asReadOnly_result [of ic stc]
    by blast
qed

theorem read_only_context_witness:
  "putWithContextAndFlags (exampleContext 0x10 noItems) \<lparr>ScriptHash = h0, ReadOnly = True\<rparr>
      [1] [2] False = Inl ReadOnlyContext
   \<and> storageDelete (exampleContext 0x10 noItems)
      (IStorageContext \<lparr>ScriptHash = h0, ReadOnly = True\<rparr>) [1] = Inl ReadOnlyContext
   \<and> storageContextAsReadOnly (exampleContext 0x10 noItems)
      (IStorageContext \<lparr>ScriptHash = h0, ReadOnly = False\<rparr>)
      = Inr (PInterop (IStorageContext \<lparr>ScriptHash = h0, ReadOnly = True\<rparr>))
   \<and> storageContextAsReadOnly (exampleContext 0x10 noItems)
      (IStorageContext \<lparr>ScriptHash = h0, ReadOnly = True\<rparr>)
      = Inr (PInterop (IStorageContext \<lparr>ScriptHash = h0, ReadOnly = True\<rparr>))"
  using read_only_context [of "\<lparr>ScriptHash = h0, ReadOnly = True\<rparr>"
      "exampleContext 0x10 noItems" "[1]" "[2]" False]
    read_only_context [of "\<lparr>ScriptHash = h0, ReadOnly = False\<rparr>"
      "exampleContext 0x10 noItems" "[1]" "[2]" False]
  by (simp add: MaxStorageKeyLen_def)

section \<open>The handlers over \<open>interop.Context\<close>\<close>

definition MaxContractDescriptionLen :: nat where
  "MaxContractDescriptionLen = 65536"

definition MaxContractScriptSize :: nat where
  "MaxContractScriptSize = 1024 * 1024"

definition MaxContractParametersNum :: nat where
  "MaxContractParametersNum = 252"

definition MaxContractStringLen :: nat where
  "MaxContractStringLen = 252"

definition MaxAssetNameLen :: nat where
  "MaxAssetNameLen = 1024"

definition MaxAssetPrecision :: byte where
  "MaxAssetPrecision = 8"

definition BlocksPerYear :: nat where
  "BlocksPerYear = 2000000"

definition DefaultAssetLifetime :: nat where
  "DefaultAssetLifetime = 1 + BlocksPerYear"

text \<open>
  Modelled from the spec: \<open>trigger.Application\<close> and the asset kinds of package
  \<open>transaction\<close> are not under src/. "Trigger kinds are represented as a 2-valued-or-more
  closed enumeration"; the Application trigger is the byte \<open>0x10\<close> that
  \<open>contractDestroy\<close> of \<open>interop_system.go\<close> compares with. "type is one of a fixed
  closed set of asset kinds": Currency, Share, Invoice and Token, with the codes of the
  protocol.
\<close>

definition Application :: byte where
  "Application = 0x10"

definition Currency :: byte where
  "Currency = 0x08"

definition Share :: byte where
  "Share = 0x90"

definition Invoice :: byte where
  "Invoice = 0x98"

definition Token :: byte where
  "Token = 0x60"

text \<open>
  Modelled from the spec: the data access object behind \<open>ic.DAO\<close> is not under src/.
  "get_contract_state(hash) -> ContractState | miss", "put_contract_state",
  "get_storage_item(contract, key) -> StorageItem | miss",
  "get_storage_items_with_prefix(contract, prefix) -> mapping",
  "get_asset_state(id) -> AssetState | miss", "put_asset_state". Contract records and
  assets are maps; the storage of one contract is an association list, so that the loops
  over \<open>GetStorageItems\<close> have something to run over. \<open>GetStorageItems\<close> returns a
  Go map, which holds one entry for each key: the list without shadowed entries.
\<close>

record DAO =
  contracts :: "Uint160 \<Rightarrow> ContractState option"
  storage :: "Uint160 \<Rightarrow> (bytes \<times> StorageItem) list"
  assets :: "Uint256 \<Rightarrow> Asset option"

definition daoGetContractState :: "DAO \<Rightarrow> Uint160 \<Rightarrow> error + ContractState" where
  "daoGetContractState d hash =
     (case contracts d hash of None \<Rightarrow> Inl NotFound | Some cs \<Rightarrow> Inr cs)"

definition daoPutContractState :: "(bytes \<Rightarrow> Uint160) \<Rightarrow> DAO \<Rightarrow> ContractState \<Rightarrow> error + DAO" where
  "daoPutContractState hash160 d cs =
     Inr (d\<lparr>contracts := (contracts d)(hash160 (Script cs) \<mapsto> cs)\<rparr>)"

definition daoDeleteContractState :: "DAO \<Rightarrow> Uint160 \<Rightarrow> error + DAO" where
  "daoDeleteContractState d hash = Inr (d\<lparr>contracts := (contracts d)(hash := None)\<rparr>)"

definition daoGetStorageItem :: "DAO \<Rightarrow> Uint160 \<Rightarrow> bytes \<Rightarrow> StorageItem option" where
  "daoGetStorageItem d hash key = map_of (storage d hash) key"

definition daoGetStorageItems :: "DAO \<Rightarrow> Uint160 \<Rightarrow> error + (bytes \<times> StorageItem) list" where
  "daoGetStorageItems d hash = Inr (AList.clearjunk (storage d hash))"

definition daoPutStorageItem :: "DAO \<Rightarrow> Uint160 \<Rightarrow> bytes \<Rightarrow> StorageItem \<Rightarrow> error + DAO" where
  "daoPutStorageItem d hash key si =
     Inr (d\<lparr>storage := (storage d)(hash := AList.update key si (storage d hash))\<rparr>)"

definition daoDeleteStorageItem :: "DAO \<Rightarrow> Uint160 \<Rightarrow> bytes \<Rightarrow> error + DAO" where
  "daoDeleteStorageItem d hash key =
     Inr (d\<lparr>storage := (storage d)(hash := AList.delete key (storage d hash))\<rparr>)"

definition daoGetAssetState :: "DAO \<Rightarrow> Uint256 \<Rightarrow> error + Asset" where
  "daoGetAssetState d assetID =
     (case assets d assetID of None \<Rightarrow> Inl NotFound | Some a \<Rightarrow> Inr a)"

definition daoPutAssetState :: "DAO \<Rightarrow> Asset \<Rightarrow> error + DAO" where
  "daoPutAssetState d a = Inr (d\<lparr>assets := (assets d)(ID a \<mapsto> a)\<rparr>)"

text \<open>
  The context of the handlers over \<open>interop.Context\<close>: trigger, data access object, the hash of
  the transaction (\<open>ic.Tx.Hash()\<close>) and the height of the chain
  (\<open>ic.Chain.BlockHeight()\<close>, a \<open>uint32\<close>).
\<close>

record Context =
  Trigger :: byte
  DAO :: DAO
  TxHash :: Uint256
  BlockHeight :: "32 word"

text \<open>
  The functions of other packages that the handlers call and src/ does not hold, as
  parameters: the script hash (\<open>hash.Hash160\<close> behind \<open>ScriptHash()\<close>), the decoder
  of public keys, the test for the point at infinity and the keyed witness check.
\<close>

record Env =
  Hash160 :: "bytes \<Rightarrow> Uint160"
  NewPublicKeyFromBytes :: "bytes \<Rightarrow> error + bytes"
  IsInfinity :: "bytes \<Rightarrow> bool"
  CheckKeyedWitness :: "bytes \<Rightarrow> error + bool"

text \<open>
  Modelled from the spec: \<open>util.Uint160DecodeBytesBE\<close> is not under src/; "a 20-byte
  script hash", taken in the order given.
\<close>

definition Uint160DecodeBytesBE :: "bytes \<Rightarrow> error + Uint160" where
  "Uint160DecodeBytesBE b = (if length b \<noteq> 20 then Inl DecodeError else Inr b)"

subsection \<open>Contracts\<close>

text \<open>The values \<open>createContractStateFromVM\<close> pops, in the order of its pops.\<close>

record ContractParams =
  pop_script :: bytes
  pop_paramBytes :: bytes
  pop_retType :: int
  pop_properties :: int
  pop_name :: bytes
  pop_version :: bytes
  pop_author :: bytes
  pop_email :: bytes
  pop_desc :: bytes

definition createContractStateFromVM :: "Context \<Rightarrow> ContractParams \<Rightarrow> error + ContractState" where
  "createContractStateFromVM ic p =
     (if Trigger ic \<noteq> Application then Inl TriggerNotApplication
      else if length (pop_script p) > MaxContractScriptSize then Inl FieldTooLarge
      else if length (pop_paramBytes p) > MaxContractParametersNum then Inl FieldTooLarge
      else if length (pop_name p) > MaxContractStringLen then Inl FieldTooLarge
      else if length (pop_version p) > MaxContractStringLen then Inl FieldTooLarge
      else if length (pop_author p) > MaxContractStringLen then Inl FieldTooLarge
      else if length (pop_email p) > MaxContractStringLen then Inl FieldTooLarge
      else if length (pop_desc p) > MaxContractDescriptionLen then Inl FieldTooLarge
      else Inr \<lparr>Script = pop_script p,
                ParamList = map ucast (pop_paramBytes p),
                ReturnType = Int64 (pop_retType p),
                Properties = byte_of_int64 (Int64 (pop_properties p)),
                Name = pop_name p,
                CodeVersion = pop_version p,
                Author = pop_author p,
                Email = pop_email p,
                Description = pop_desc p\<rparr>)"

definition contractCreate :: "Env \<Rightarrow> Context \<Rightarrow> ContractParams \<Rightarrow> error + (Context \<times> pushed)" where
  "contractCreate env ic p =
     (case createContractStateFromVM ic p of
        Inl err \<Rightarrow> Inl err
      | Inr newcontract \<Rightarrow>
          (case daoGetContractState (DAO ic) (Hash160 env (Script newcontract)) of
             Inl err \<Rightarrow>
               (case daoPutContractState (Hash160 env) (DAO ic) newcontract of
                  Inl err \<Rightarrow> Inl err
                | Inr d \<Rightarrow> Inr (ic\<lparr>DAO := d\<rparr>, PInterop (IContractState newcontract)))
           | Inr contract \<Rightarrow> Inr (ic, PInterop (IContractState contract))))"

text \<open>
  Modelled from the spec: the \<open>contractDestroy(ic, v)\<close> that \<open>contractMigrate\<close> calls,
  a function over \<open>interop.Context\<close>, is not under src/ (its older form over
  \<open>interopContext\<close> is, and is \<open>contractDestroy\<close> below). "requires Application
  trigger; no-op (not an error) if the contract does not exist; otherwise removes the
  contract record and, if it declared storage support, every storage item under its
  namespace." The hash is that of the executing script.
\<close>

definition contractDestroyDAO :: "Context \<Rightarrow> Uint160 \<Rightarrow> error + Context" where
  "contractDestroyDAO ic hash =
     (if Trigger ic \<noteq> Application then Inl TriggerNotApplication
      else case daoGetContractState (DAO ic) hash of
        Inl err \<Rightarrow> Inr ic
      | Inr cs \<Rightarrow>
          (case daoDeleteContractState (DAO ic) hash of
             Inl err \<Rightarrow> Inl err
           | Inr d \<Rightarrow>
               if HasStorage cs then
                 (case daoGetStorageItems d hash of
                    Inl err \<Rightarrow> Inl err
                  | Inr siMap \<Rightarrow>
                      Inr (ic\<lparr>DAO := fold (\<lambda>(k, si) d'.
                              case daoDeleteStorageItem d' hash k of
                                Inl err \<Rightarrow> d'
                              | Inr d'' \<Rightarrow> d'') siMap d\<rparr>))
               else Inr (ic\<lparr>DAO := d\<rparr>)))"

text \<open>
  The loop of \<open>contractMigrate\<close> over the storage items of the executing script: each is
  put under the new script hash with \<open>IsConst\<close> cleared; the first error ends it.
\<close>

fun migrateStorageItems :: "Uint160 \<Rightarrow> (bytes \<times> StorageItem) list \<Rightarrow> DAO \<Rightarrow> error + DAO" where
  "migrateStorageItems newhash [] d = Inr d"
| "migrateStorageItems newhash ((k, si) # siMap) d =
     (case daoPutStorageItem d newhash k (si\<lparr>IsConst := False\<rparr>) of
        Inl err \<Rightarrow> Inl err
      | Inr d' \<Rightarrow> migrateStorageItems newhash siMap d')"

text \<open>
  \<open>contractMigrate\<close>; \<open>hash\<close> is \<open>v.GetCurrentScriptHash()\<close>, the hash of the
  executing script, which is also the one \<open>contractDestroy\<close> takes.
\<close>

definition contractMigrate ::
  "Env \<Rightarrow> Context \<Rightarrow> Uint160 \<Rightarrow> ContractParams \<Rightarrow> error + (Context \<times> pushed)" where
  "contractMigrate env ic hash p =
     (case createContractStateFromVM ic p of
        Inl err \<Rightarrow> Inl err
      | Inr newcontract \<Rightarrow>
          (case (case daoGetContractState (DAO ic) (Hash160 env (Script newcontract)) of
                   Inl err \<Rightarrow>
                     (case daoPutContractState (Hash160 env) (DAO ic) newcontract of
                        Inl err \<Rightarrow> Inl err
                      | Inr d \<Rightarrow>
                          if HasStorage newcontract then
                            (case daoGetStorageItems d hash of
                               Inl err \<Rightarrow> Inl err
                             | Inr siMap \<Rightarrow>
                                 (case migrateStorageItems (Hash160 env (Script newcontract)) siMap d of
                                    Inl err \<Rightarrow> Inl err
                                  | Inr d' \<Rightarrow> Inr (d', newcontract)))
                          else Inr (d, newcontract))
                 | Inr contract \<Rightarrow> Inr (DAO ic, contract)) of
             Inl err \<Rightarrow> Inl err
           | Inr (d, contract) \<Rightarrow>
               (case contractDestroyDAO (ic\<lparr>DAO := d\<rparr>) hash of
                  Inl err \<Rightarrow> Inl err
                | Inr ic' \<Rightarrow> Inr (ic', PInterop (IContractState contract)))))"

text \<open>
  \<open>contractDestroy\<close> of \<open>interop_system.go\<close>, over the ledger and the staged store;
  \<open>hash\<close> is \<open>getContextScriptHash(v, 0)\<close>. The result of each
  \<open>deleteStorageItemInStore\<close> in the loop is dropped, as \<open>_ =\<close> does.
\<close>

definition contractDestroy :: "interopContext \<Rightarrow> Uint160 \<Rightarrow> error + interopContext" where
  "contractDestroy ic hash =
     (if trigger ic \<noteq> 0x10 then Inl TriggerNotApplication
      else case GetContractState (bc ic) hash of
        None \<Rightarrow> Inr ic
      | Some cs \<Rightarrow>
          (case deleteContractStateInStore (mem ic) hash of
             Inl err \<Rightarrow> Inl err
           | Inr m \<Rightarrow>
               if HasStorage cs then
                 (case GetStorageItems (bc ic) hash of
                    Inl err \<Rightarrow> Inl err
                  | Inr siMap \<Rightarrow>
                      Inr (ic\<lparr>mem := fold (\<lambda>(k, si) m'.
                              case deleteStorageItemInStore m' hash k of
                                Inl err \<Rightarrow> m'
                              | Inr m'' \<Rightarrow> m'') siMap m\<rparr>))
               else Inr (ic\<lparr>mem := m\<rparr>)))"

subsection \<open>Assets\<close>

text \<open>Go's \<open>%\<close> on integers: the remainder of the division that truncates towards zero.\<close>

definition goRem :: "int \<Rightarrow> int \<Rightarrow> int" where
  "goRem a b = sgn a * (\<bar>a\<bar> mod \<bar>b\<bar>)"

text \<open>The values \<open>assetCreate\<close> pops, in the order of its pops.\<close>

record AssetParams =
  pop_atype :: int
  pop_assetName :: bytes
  pop_amount :: int
  pop_precision :: int
  pop_owner :: bytes
  pop_admin :: bytes
  pop_issuer :: bytes

text \<open>
  The last of the amount checks: the amount is not \<open>-util.Satoshi()\<close> (the fixed-point
  value \<open>-1\<close>) and leaves a remainder modulo \<open>10 ^ (MaxAssetPrecision - precision)\<close>.
\<close>

definition hasFractionalComponent :: "64 word \<Rightarrow> byte \<Rightarrow> bool" where
  "hasFractionalComponent amount precision =
     (amount \<noteq> - 1 \<and> goRem (sint amount) (10 ^ unat (MaxAssetPrecision - precision)) \<noteq> 0)"

definition assetCreate :: "Env \<Rightarrow> Context \<Rightarrow> AssetParams \<Rightarrow> error + (Context \<times> pushed)" where
  "assetCreate env ic p =
     (if Trigger ic \<noteq> Application then Inl TriggerNotApplication
      else let atype = byte_of_int64 (Int64 (pop_atype p)) in
      if \<not> (atype = Currency \<or> atype = Share \<or> atype = Invoice \<or> atype = Token)
      then Inl InvalidAssetField
      else if length (pop_assetName p) > MaxAssetNameLen then Inl FieldTooLarge
      else let amount = Int64 (pop_amount p) in
      if amount = 0 then Inl InvalidAssetField
      else if sint amount < - 1 then Inl InvalidAssetField
      else if atype = Invoice \<and> amount \<noteq> - 1 then Inl InvalidAssetField
      else let precision = byte_of_int64 (Int64 (pop_precision p)) in
      if precision > MaxAssetPrecision then Inl InvalidAssetField
      else if atype = Share \<and> precision \<noteq> 0 then Inl InvalidAssetField
      else if hasFractionalComponent amount precision then Inl InvalidAssetField
      else case NewPublicKeyFromBytes env (pop_owner p) of
        Inl err \<Rightarrow> Inl DecodeError
      | Inr owner \<Rightarrow>
          if IsInfinity env owner then Inl InvalidAssetField
          else (case CheckKeyedWitness env owner of
            Inl err \<Rightarrow> Inl err
          | Inr witnessOk \<Rightarrow>
              if \<not> witnessOk then Inl WitnessCheckFailed
              else (case Uint160DecodeBytesBE (pop_admin p) of
                Inl err \<Rightarrow> Inl DecodeError
              | Inr admin \<Rightarrow>
                  (case Uint160DecodeBytesBE (pop_issuer p) of
                     Inl err \<Rightarrow> Inl DecodeError
                   | Inr issuer \<Rightarrow>
                       (let asset = \<lparr>ID = TxHash ic, AssetType = atype,
                              AssetName = pop_assetName p, Amount = amount,
                              Precision = precision, Owner = owner, Admin = admin,
                              Issuer = issuer,
                              Expiration = BlockHeight ic + of_nat DefaultAssetLifetime\<rparr> in
                        case daoPutAssetState (DAO ic) asset of
                          Inl err \<Rightarrow> Inl StoreError
                        | Inr d \<Rightarrow> Inr (ic\<lparr>DAO := d\<rparr>, PInterop (IAsset asset)))))))"

definition assetRenew :: "Context \<Rightarrow> iface \<Rightarrow> int \<Rightarrow> error + (Context \<times> pushed)" where
  "assetRenew ic asInterface yearsInt =
     (if Trigger ic \<noteq> Application then Inl TriggerNotApplication
      else case asInterface of
        IAsset as \<Rightarrow>
          (let years = byte_of_int64 (Int64 yearsInt) in
           case daoGetAssetState (DAO ic) (ID as) of
             Inl err \<Rightarrow> Inl NotFound
           | Inr asset \<Rightarrow>
               (let asset1 = (if Expiration asset < BlockHeight ic + 1
                              then asset\<lparr>Expiration := BlockHeight ic + 1\<rparr> else asset);
                    expiration = (ucast (Expiration asset1) :: 64 word)
                                   + ucast years * of_nat BlocksPerYear;
                    expiration' = (if expiration > 0xFFFFFFFF then 0xFFFFFFFF else expiration);
                    asset2 = asset1\<lparr>Expiration := ucast expiration'\<rparr>
                in case daoPutAssetState (DAO ic) asset2 of
                     Inl err \<Rightarrow> Inl StoreError
                   | Inr d \<Rightarrow> Inr (ic\<lparr>DAO := d\<rparr>, PInt (uint expiration'))))
      | _ \<Rightarrow> Inl WrongHandleType)"

section \<open>Example states of the later handlers\<close>

text \<open>
  A data access object with the contract \<open>storageContract\<close> at \<open>h0\<close>, one constant item
  in its storage, and one asset that expires at height 100; the chain is at height 10.
  The script hash of the example environment is the length of the script, as a byte,
  twenty times.
\<close>

definition exampleAsset :: Asset where
  "exampleAsset = \<lparr>ID = replicate 32 0, AssetType = Token, AssetName = [], Amount = 100000000,
     Precision = 8, Owner = replicate 33 2, Admin = replicate 20 0, Issuer = replicate 20 0,
     Expiration = 100\<rparr>"

definition exampleDAO :: DAO where
  "exampleDAO = \<lparr>contracts = (\<lambda>h. if h = h0 then Some storageContract else None),
     storage = (\<lambda>h. if h = h0 then [([1], \<lparr>Value = [7], IsConst = True\<rparr>)] else []),
     assets = (\<lambda>i. if i = replicate 32 0 then Some exampleAsset else None)\<rparr>"

definition exampleDAOContext :: Context where
  "exampleDAOContext = \<lparr>Trigger = Application, DAO = exampleDAO, TxHash = replicate 32 0,
     BlockHeight = 10\<rparr>"


definition exampleEnv :: Env where
  "exampleEnv = \<lparr>Hash160 = (\<lambda>s. replicate 20 (of_nat (length s))),
     NewPublicKeyFromBytes = (\<lambda>b. if length b = 33 \<or> b = [0] then Inr b else Inl DecodeError),
     IsInfinity = (\<lambda>k. k = [0]),
     CheckKeyedWitness = (\<lambda>k. Inr True)\<rparr>"

definition newParams :: ContractParams where
  "newParams = \<lparr>pop_script = [0x51, 0x52], pop_paramBytes = [], pop_retType = 0,
     pop_properties = 1, pop_name = [], pop_version = [], pop_author = [], pop_email = [],
     pop_desc = []\<rparr>"

definition newContract :: ContractState where
  "newContract = \<lparr>Script = [0x51, 0x52], ParamList = [], ReturnType = 0, Properties = 1,
     Name = [], CodeVersion = [], Author = [], Email = [], Description = []\<rparr>"

lemma create_newParams:
  "createContractStateFromVM exampleDAOContext (newParams\<lparr>pop_name := n\<rparr>) =
     (if length n > 252 then Inl FieldTooLarge else Inr (newContract\<lparr>Name := n\<rparr>))"
  by (simp add: createContractStateFromVM_def exampleDAOContext_def newParams_def
      newContract_def MaxContractScriptSize_def MaxContractParametersNum_def
      MaxContractStringLen_def MaxContractDescriptionLen_def Int64_def byte_of_int64_def)

lemma newParams_name: "newParams\<lparr>pop_name := []\<rparr> = newParams"
  by (simp add: newParams_def)

lemma newContract_name: "newContract\<lparr>Name := []\<rparr> = newContract"
  by (simp add: newContract_def)

lemma Hash160_newContract [simp]:
  "Hash160 exampleEnv (Script (newContract\<lparr>Name := n\<rparr>)) = replicate 20 2"
  by (simp add: exampleEnv_def newContract_def)

lemma HasStorage_newContract [simp]: "HasStorage newContract"
  by (simp add: HasStorage_def newContract_def)


section \<open>Creating a contract\<close>

lemma created_Script:
  "createContractStateFromVM ic p = Inr nc \<Longrightarrow> Script nc = pop_script p \<and> Trigger ic = Application"
  by (auto simp: createContractStateFromVM_def split: if_splits)

lemma createContractStateFromVM_Trigger:
  "Trigger ic' = Trigger ic \<Longrightarrow> createContractStateFromVM ic' p = createContractStateFromVM ic p"
  by (simp add: createContractStateFromVM_def)

lemma contractCreate_existing:
  assumes "createContractStateFromVM ic p = Inr nc"
    and "contracts (DAO ic) (Hash160 env (Script nc)) = Some c"
  shows "contractCreate env ic p = Inr (ic, PInterop (IContractState c))"
  using assms by (simp add: contractCreate_def daoGetContractState_def)

lemma contractCreate_fresh:
  assumes "createContractStateFromVM ic p = Inr nc"
    and "contracts (DAO ic) (Hash160 env (Script nc)) = None"
  shows "contractCreate env ic p =
           Inr (ic\<lparr>DAO := (DAO ic)\<lparr>contracts := (contracts (DAO ic))(Hash160 env (Script nc) \<mapsto> nc)\<rparr>\<rparr>,
                PInterop (IContractState nc))"
  using assms by (simp add: contractCreate_def daoGetContractState_def daoPutContractState_def)


text \<open>
  C7. For a valid contract spec (\<open>createContractStateFromVM\<close> succeeds, which takes the
  Application trigger and fields within their limits): when a contract with the script
  hash of the spec exists, \<open>contractCreate\<close> returns that contract and leaves the
  context as it was; when none exists, it stores the new contract under the hash and
  returns it; and a second create with the same script, whatever its other fields, returns
  the contract the first one returned and changes nothing. Storage is not touched.
\<close>

theorem contractCreate_idempotent:
  assumes "createContractStateFromVM ic p = Inr nc"
  shows "(\<forall>c. contracts (DAO ic) (Hash160 env (Script nc)) = Some c \<longrightarrow>
            contractCreate env ic p = Inr (ic, PInterop (IContractState c)))
       \<and> (contracts (DAO ic) (Hash160 env (Script nc)) = None \<longrightarrow>
            contractCreate env ic p =
              Inr (ic\<lparr>DAO := (DAO ic)\<lparr>contracts :=
                       (contracts (DAO ic))(Hash160 env (Script nc) \<mapsto> nc)\<rparr>\<rparr>,
                   PInterop (IContractState nc)))
       \<and> (\<forall>ic1 r p' nc'. contractCreate env ic p = Inr (ic1, r)
              \<and> createContractStateFromVM ic1 p' = Inr nc' \<and> pop_script p' = pop_script p \<longrightarrow>
            contractCreate env ic1 p' = Inr (ic1, r) \<and> storage (DAO ic1) = storage (DAO ic))"
proof (intro conjI allI impI)
  fix c assume "contracts (DAO ic) (Hash160 env (Script nc)) = Some c"
  with assms show "contractCreate env ic p = Inr (ic, PInterop (IContractState c))"
    by (rule contractCreate_existing)
next
  assume "contracts (DAO ic) (Hash160 env (Script nc)) = None"
  with assms show "contractCreate env ic p =
      Inr (ic\<lparr>DAO := (DAO ic)\<lparr>contracts := (contracts (DAO ic))(Hash160 env (Script nc) \<mapsto> nc)\<rparr>\<rparr>,
           PInterop (IContractState nc))"
    by (rule contractCreate_fresh)
next
  fix ic1 r p' nc'
  assume h: "contractCreate env ic p = Inr (ic1, r)
              \<and> createContractStateFromVM ic1 p' = Inr nc' \<and> pop_script p' = pop_script p"
  from assms have s: "Script nc = pop_script p" using created_Script [of ic p nc] by simp
  from h have s': "Script nc' = pop_script p" using created_Script [of ic1 p' nc'] by simp
  show "contractCreate env ic1 p' = Inr (ic1, r)"
  proof (cases "contracts (DAO ic) (Hash160 env (Script nc))")
    case None
    from contractCreate_fresh [OF assms None] h
    have ic1: "ic1 = ic\<lparr>DAO := (DAO ic)\<lparr>contracts := (contracts (DAO ic))(Hash160 env (Script nc) \<mapsto> nc)\<rparr>\<rparr>"
      and r: "r = PInterop (IContractState nc)" by simp_all
    have "contracts (DAO ic1) (Hash160 env (Script nc')) = Some nc"
      by (simp add: ic1 s s')
    with h show ?thesis using contractCreate_existing [of ic1 p' nc' env nc] r by simp
  next
    case (Some c)
    from contractCreate_existing [OF assms Some] h
    have ic1: "ic1 = ic" and r: "r = PInterop (IContractState c)" by simp_all
    have "contracts (DAO ic1) (Hash160 env (Script nc')) = Some c"
      using Some by (simp add: ic1 s s')
    with h show ?thesis using contractCreate_existing [of ic1 p' nc' env c] r by simp
  qed
  show "storage (DAO ic1) = storage (DAO ic)"
  proof (cases "contracts (DAO ic) (Hash160 env (Script nc))")
    case None
    from contractCreate_fresh [OF assms None] h show ?thesis by auto
  next
    case (Some c)
    from contractCreate_existing [OF assms Some] h show ?thesis by auto
  qed
qed

theorem contractCreate_idempotent_witness:
  "contractCreate exampleEnv exampleDAOContext newParams =
     Inr (exampleDAOContext\<lparr>DAO := exampleDAO\<lparr>contracts :=
            (contracts exampleDAO)(replicate 20 2 \<mapsto> newContract)\<rparr>\<rparr>,
          PInterop (IContractState newContract))
   \<and> contractCreate exampleEnv
        (exampleDAOContext\<lparr>DAO := exampleDAO\<lparr>contracts :=
            (contracts exampleDAO)(replicate 20 2 \<mapsto> newContract)\<rparr>\<rparr>)
        (newParams\<lparr>pop_name := [1]\<rparr>) =
     Inr (exampleDAOContext\<lparr>DAO := exampleDAO\<lparr>contracts :=
            (contracts exampleDAO)(replicate 20 2 \<mapsto> newContract)\<rparr>\<rparr>,
          PInterop (IContractState newContract))"
proof -
  let ?ic1 = "exampleDAOContext\<lparr>DAO := exampleDAO\<lparr>contracts :=
            (contracts exampleDAO)(replicate 20 2 \<mapsto> newContract)\<rparr>\<rparr>"
  have v: "createContractStateFromVM exampleDAOContext newParams = Inr newContract"
    using create_newParams [of "[]"] by (simp add: newParams_name newContract_name)
  have fresh: "contracts (DAO exampleDAOContext) (Hash160 exampleEnv (Script newContract)) = None"
    using Hash160_newContract [of "[]"]
    by (simp add: newContract_name exampleDAOContext_def exampleDAO_def h0_def)
  have h: "Hash160 exampleEnv (Script newContract) = replicate 20 2"
    using Hash160_newContract [of "[]"] by (simp add: newContract_name)
  have d: "DAO exampleDAOContext = exampleDAO" by (simp add: exampleDAOContext_def)
  have v': "createContractStateFromVM ?ic1 (newParams\<lparr>pop_name := [1]\<rparr>)
              = Inr (newContract\<lparr>Name := [1]\<rparr>)"
    using create_newParams [of "[1]"]
    by (simp add: createContractStateFromVM_Trigger [of ?ic1 exampleDAOContext])
  have s: "pop_script (newParams\<lparr>pop_name := [1]\<rparr>) = pop_script newParams" by simp
  from contractCreate_idempotent [OF v, of exampleEnv] fresh
  have first: "contractCreate exampleEnv exampleDAOContext newParams =
      Inr (?ic1, PInterop (IContractState newContract))"
    by (simp only: h d)
  from contractCreate_idempotent [OF v, of exampleEnv] first v' s
  have "contractCreate exampleEnv ?ic1 (newParams\<lparr>pop_name := [1]\<rparr>) =
      Inr (?ic1, PInterop (IContractState newContract))"
    by blast
  with first show ?thesis by (intro conjI)
qed

section \<open>Migrating a contract\<close>

lemma map_of_fold_update:
  assumes "distinct (map fst xs)"
  shows "map_of (fold (\<lambda>(k, si). AList.update k (f si)) xs al) k =
           (case map_of xs k of Some si \<Rightarrow> Some (f si) | None \<Rightarrow> map_of al k)"
  using assms
proof (induction xs arbitrary: al)
  case Nil
  then show ?case by simp
next
  case (Cons x xs)
  obtain k0 v0 where x: "x = (k0, v0)" by (cases x)
  from Cons.prems x have d: "distinct (map fst xs)" and n: "k0 \<notin> fst ` set xs" by auto
  from n have none: "map_of xs k0 = None" by (simp add: map_of_eq_None_iff)
  show ?case
    using Cons.IH [OF d, of "AList.update k0 (f v0) al"] none
    by (simp add: x update_conv' split: option.splits)
qed

lemma map_of_fold_delete:
  "map_of (fold (\<lambda>(k, si). AList.delete k) xs al) k =
     (if k \<in> fst ` set xs then None else map_of al k)"
proof (induction xs arbitrary: al)
  case Nil
  then show ?case by simp
next
  case (Cons x xs)
  obtain k0 v0 where x: "x = (k0, v0)" by (cases x)
  show ?case
    using Cons.IH [of "AList.delete k0 al"]
    by (simp add: x delete_conv')
qed

lemma migrateStorageItems_eq:
  "migrateStorageItems h xs d =
     Inr (d\<lparr>storage := (storage d)(h := fold (\<lambda>(k, si). AList.update k (si\<lparr>IsConst := False\<rparr>)) xs (storage d h))\<rparr>)"
proof (induction xs arbitrary: d)
  case Nil
  then show ?case by simp
next
  case (Cons x xs)
  obtain k0 v0 where x: "x = (k0, v0)" by (cases x)
  have "migrateStorageItems h (x # xs) d =
          migrateStorageItems h xs
            (d\<lparr>storage := (storage d)(h := AList.update k0 (v0\<lparr>IsConst := False\<rparr>) (storage d h))\<rparr>)"
    by (simp add: x daoPutStorageItem_def)
  also have "\<dots> = Inr (d\<lparr>storage := (storage d)(h :=
        fold (\<lambda>(k, si). AList.update k (si\<lparr>IsConst := False\<rparr>)) (x # xs) (storage d h))\<rparr>)"
    by (subst Cons.IH) (simp add: x)
  finally show ?case .
qed

lemma destroy_fold_eq:
  "fold (\<lambda>(k, si) d'. case daoDeleteStorageItem d' h k of Inl err \<Rightarrow> d' | Inr d'' \<Rightarrow> d'') xs d =
     d\<lparr>storage := (storage d)(h := fold (\<lambda>(k, si). AList.delete k) xs (storage d h))\<rparr>"
proof (induction xs arbitrary: d)
  case Nil
  then show ?case by simp
next
  case (Cons x xs)
  obtain k0 v0 where x: "x = (k0, v0)" by (cases x)
  let ?F = "\<lambda>(k, si) d'. case daoDeleteStorageItem d' h k of Inl err \<Rightarrow> d' | Inr d'' \<Rightarrow> d''"
  have "fold ?F (x # xs) d =
          fold ?F xs (d\<lparr>storage := (storage d)(h := AList.delete k0 (storage d h))\<rparr>)"
    by (simp add: x daoDeleteStorageItem_def)
  also have "\<dots> = d\<lparr>storage := (storage d)(h :=
        fold (\<lambda>(k, si). AList.delete k) (x # xs) (storage d h))\<rparr>"
    by (subst Cons.IH) (simp add: x)
  finally show ?case .
qed

lemma contractDestroyDAO_result:
  assumes "Trigger ic = Application"
  shows "\<exists>ic'. contractDestroyDAO ic h = Inr ic'
          \<and> Trigger ic' = Trigger ic
          \<and> contracts (DAO ic') = (contracts (DAO ic))(h := None)
          \<and> (\<forall>h'. h' \<noteq> h \<longrightarrow> storage (DAO ic') h' = storage (DAO ic) h')
          \<and> (\<forall>cs. contracts (DAO ic) h = Some cs \<and> HasStorage cs \<longrightarrow>
                (\<forall>k. map_of (storage (DAO ic') h) k = None))
          \<and> (\<not> (\<exists>cs. contracts (DAO ic) h = Some cs \<and> HasStorage cs) \<longrightarrow>
                storage (DAO ic') h = storage (DAO ic) h)"
proof (cases "contracts (DAO ic) h")
  case None
  with assms show ?thesis
    by (simp add: contractDestroyDAO_def daoGetContractState_def fun_upd_idem)
next
  case (Some cs)
  show ?thesis
  proof (cases "HasStorage cs")
    case False
    with assms Some show ?thesis
      by (simp add: contractDestroyDAO_def daoGetContractState_def daoDeleteContractState_def)
  next
    case True
    have gone: "map_of (fold (\<lambda>(k, si). AList.delete k) (AList.clearjunk al) al) k = None" for al :: "(bytes \<times> StorageItem) list" and k
      by (simp add: map_of_fold_delete dom_clearjunk map_of_eq_None_iff)
    from assms Some True show ?thesis
      by (simp add: contractDestroyDAO_def daoGetContractState_def daoDeleteContractState_def
          daoGetStorageItems_def destroy_fold_eq gone)
  qed
qed

text \<open>The data after the creating part of \<open>contractMigrate\<close>, before the caller is destroyed.\<close>

definition migrated :: "Env \<Rightarrow> DAO \<Rightarrow> Uint160 \<Rightarrow> ContractState \<Rightarrow> DAO" where
  "migrated env d hash nc =
     (case contracts d (Hash160 env (Script nc)) of
        Some c \<Rightarrow> d
      | None \<Rightarrow>
          if HasStorage nc then
            d\<lparr>contracts := (contracts d)(Hash160 env (Script nc) \<mapsto> nc),
              storage := (storage d)(Hash160 env (Script nc) :=
                fold (\<lambda>(k, si). AList.update k (si\<lparr>IsConst := False\<rparr>))
                  (AList.clearjunk (storage d hash)) (storage d (Hash160 env (Script nc))))\<rparr>
          else d\<lparr>contracts := (contracts d)(Hash160 env (Script nc) \<mapsto> nc)\<rparr>)"

definition returned :: "Env \<Rightarrow> DAO \<Rightarrow> ContractState \<Rightarrow> ContractState" where
  "returned env d nc = (case contracts d (Hash160 env (Script nc)) of Some c \<Rightarrow> c | None \<Rightarrow> nc)"

lemma contractMigrate_steps:
  assumes "createContractStateFromVM ic p = Inr nc"
  shows "contractMigrate env ic hash p =
           (case contractDestroyDAO (ic\<lparr>DAO := migrated env (DAO ic) hash nc\<rparr>) hash of
              Inl err \<Rightarrow> Inl err
            | Inr ic' \<Rightarrow> Inr (ic', PInterop (IContractState (returned env (DAO ic) nc))))"
proof (cases "contracts (DAO ic) (Hash160 env (Script nc))")
  case None
  then show ?thesis
    using assms
    by (simp add: contractMigrate_def migrated_def returned_def daoGetContractState_def
        daoPutContractState_def daoGetStorageItems_def migrateStorageItems_eq
        cong: sum.case_cong)
next
  case (Some c)
  then show ?thesis
    using assms
    by (simp add: contractMigrate_def migrated_def returned_def daoGetContractState_def
        cong: sum.case_cong)
qed

lemma contracts_migrated:
  "contracts (migrated env d hash nc) =
     (contracts d)(Hash160 env (Script nc) \<mapsto> returned env d nc)"
  by (cases "contracts d (Hash160 env (Script nc))")
     (auto simp: migrated_def returned_def fun_upd_idem)

lemma storage_migrated_other:
  "h \<noteq> Hash160 env (Script nc) \<Longrightarrow> storage (migrated env d hash nc) h = storage d h"
  by (cases "contracts d (Hash160 env (Script nc))") (auto simp: migrated_def)

lemma storage_migrated_new:
  "map_of (storage (migrated env d hash nc) (Hash160 env (Script nc))) k =
     (if contracts d (Hash160 env (Script nc)) = None \<and> HasStorage nc
      then (case map_of (storage d hash) k of
              Some si \<Rightarrow> Some (si\<lparr>IsConst := False\<rparr>)
            | None \<Rightarrow> map_of (storage d (Hash160 env (Script nc))) k)
      else map_of (storage d (Hash160 env (Script nc))) k)"
  by (cases "contracts d (Hash160 env (Script nc))")
     (auto simp: migrated_def map_of_fold_update distinct_clearjunk map_of_clearjunk)

lemma contractCreate_result:
  assumes "createContractStateFromVM ic p = Inr nc"
  shows "\<exists>icc. contractCreate env ic p = Inr (icc, PInterop (IContractState (returned env (DAO ic) nc)))
           \<and> contracts (DAO icc) =
               (contracts (DAO ic))(Hash160 env (Script nc) \<mapsto> returned env (DAO ic) nc)"
proof (cases "contracts (DAO ic) (Hash160 env (Script nc))")
  case None
  from contractCreate_fresh [OF assms None] None show ?thesis
    by (simp add: returned_def)
next
  case (Some c)
  from contractCreate_existing [OF assms Some] Some show ?thesis
    by (simp add: returned_def fun_upd_idem)
qed


text \<open>
  C8. For a valid contract spec, \<open>contractMigrate\<close> returns the contract
  \<open>contractCreate\<close> returns and stores what it stores; where the new contract did
  not exist and declares storage, every storage item of the executing script is found under
  the new script hash with \<open>IsConst\<close> cleared, and otherwise the storage under the new
  hash is what it was; in every case the contract record of the executing script is gone
  and so are all of its storage items. The executing script is taken to hold storage items
  only if its contract record declares storage, as \<open>putWithContextAndFlags\<close> and the
  copy loop ensure.
\<close>

theorem contractMigrate_copies_and_destroys:
  assumes valid: "createContractStateFromVM ic p = Inr nc"
    and caller: "storage (DAO ic) hash \<noteq> [] \<longrightarrow>
                   (\<exists>cs. contracts (DAO ic) hash = Some cs \<and> HasStorage cs)"
  shows "\<exists>c icc icm.
      contractCreate env ic p = Inr (icc, PInterop (IContractState c))
    \<and> contractMigrate env ic hash p = Inr (icm, PInterop (IContractState c))
    \<and> c = (case contracts (DAO ic) (Hash160 env (Script nc)) of None \<Rightarrow> nc | Some c0 \<Rightarrow> c0)
    \<and> contracts (DAO icc) = (contracts (DAO ic))(Hash160 env (Script nc) \<mapsto> c)
    \<and> contracts (DAO icm) = (contracts (DAO icc))(hash := None)
    \<and> (Hash160 env (Script nc) \<noteq> hash \<longrightarrow>
         (\<forall>k. daoGetStorageItem (DAO icm) (Hash160 env (Script nc)) k =
            (if contracts (DAO ic) (Hash160 env (Script nc)) = None \<and> HasStorage nc
             then (case daoGetStorageItem (DAO ic) hash k of
                     Some si \<Rightarrow> Some (si\<lparr>IsConst := False\<rparr>)
                   | None \<Rightarrow> daoGetStorageItem (DAO ic) (Hash160 env (Script nc)) k)
             else daoGetStorageItem (DAO ic) (Hash160 env (Script nc)) k)))
    \<and> (\<forall>k. daoGetStorageItem (DAO icm) hash k = None)
    \<and> (\<forall>h. h \<noteq> Hash160 env (Script nc) \<and> h \<noteq> hash \<longrightarrow>
          storage (DAO icm) h = storage (DAO ic) h)"
proof -
  let ?hn = "Hash160 env (Script nc)"
  let ?c = "returned env (DAO ic) nc"
  let ?d = "migrated env (DAO ic) hash nc"
  from valid have app: "Trigger ic = Application" by (simp add: created_Script)
  from contractCreate_result [OF valid, of env] obtain icc where
    cr: "contractCreate env ic p = Inr (icc, PInterop (IContractState ?c))"
    and crc: "contracts (DAO icc) = (contracts (DAO ic))(?hn \<mapsto> ?c)" by blast
  from app have "Trigger (ic\<lparr>DAO := ?d\<rparr>) = Application" by simp
  from contractDestroyDAO_result [OF this, of hash] obtain icm where
    de: "contractDestroyDAO (ic\<lparr>DAO := ?d\<rparr>) hash = Inr icm"
    and dc: "contracts (DAO icm) = (contracts ?d)(hash := None)"
    and dother: "\<forall>h'. h' \<noteq> hash \<longrightarrow> storage (DAO icm) h' = storage ?d h'"
    and dgone: "\<forall>cs. contracts ?d hash = Some cs \<and> HasStorage cs \<longrightarrow>
                  (\<forall>k. map_of (storage (DAO icm) hash) k = None)"
    and dkeep: "\<not> (\<exists>cs. contracts ?d hash = Some cs \<and> HasStorage cs) \<longrightarrow>
                  storage (DAO icm) hash = storage ?d hash"
    by auto
  have mi: "contractMigrate env ic hash p = Inr (icm, PInterop (IContractState ?c))"
    by (simp add: contractMigrate_steps [OF valid] de)
  have c_eq: "?c = (case contracts (DAO ic) ?hn of None \<Rightarrow> nc | Some c0 \<Rightarrow> c0)"
    by (simp add: returned_def split: option.splits)
  have mc: "contracts (DAO icm) = (contracts (DAO icc))(hash := None)"
    by (simp add: dc crc contracts_migrated)
  have new: "daoGetStorageItem (DAO icm) ?hn k =
            (if contracts (DAO ic) ?hn = None \<and> HasStorage nc
             then (case daoGetStorageItem (DAO ic) hash k of
                     Some si \<Rightarrow> Some (si\<lparr>IsConst := False\<rparr>)
                   | None \<Rightarrow> daoGetStorageItem (DAO ic) ?hn k)
             else daoGetStorageItem (DAO ic) ?hn k)" if "?hn \<noteq> hash" for k
    using that dother storage_migrated_new [of env "DAO ic" hash nc k]
    by (simp add: daoGetStorageItem_def cong: option.case_cong)
  have other: "storage (DAO icm) h = storage (DAO ic) h" if "h \<noteq> ?hn \<and> h \<noteq> hash" for h
    using that dother by (simp add: storage_migrated_other)
  have gone: "daoGetStorageItem (DAO icm) hash k = None" for k
  proof (cases "\<exists>cs. contracts ?d hash = Some cs \<and> HasStorage cs")
    case True
    with dgone show ?thesis by (auto simp: daoGetStorageItem_def)
  next
    case False
    with dkeep have keep: "storage (DAO icm) hash = storage ?d hash" by simp
    show ?thesis
    proof (cases "?hn = hash")
      case neq: False
      then have same: "storage ?d hash = storage (DAO ic) hash"
        by (simp add: storage_migrated_other)
      from neq have "contracts ?d hash = contracts (DAO ic) hash"
        by (simp add: contracts_migrated)
      with False caller have "storage (DAO ic) hash = []" by auto
      with keep same show ?thesis by (simp add: daoGetStorageItem_def)
    next
      case eq: True
      from False eq have nost: "\<not> HasStorage ?c" by (simp add: contracts_migrated)
      have empty: "storage (DAO ic) hash = []"
      proof (cases "contracts (DAO ic) hash")
        case None
        with caller show ?thesis by auto
      next
        case (Some c0)
        with eq have "?c = c0" by (simp add: returned_def)
        with nost Some caller show ?thesis by auto
      qed
      have "map_of (storage ?d hash) k = None"
        using storage_migrated_new [of env "DAO ic" hash nc k] eq empty
        by (simp split: if_splits)
      with keep show ?thesis by (simp add: daoGetStorageItem_def)
    qed
  qed
  have new': "?hn \<noteq> hash \<longrightarrow> (\<forall>k. daoGetStorageItem (DAO icm) ?hn k =
            (if contracts (DAO ic) ?hn = None \<and> HasStorage nc
             then (case daoGetStorageItem (DAO ic) hash k of
                     Some si \<Rightarrow> Some (si\<lparr>IsConst := False\<rparr>)
                   | None \<Rightarrow> daoGetStorageItem (DAO ic) ?hn k)
             else daoGetStorageItem (DAO ic) ?hn k))"
    using new by blast
  have gone': "\<forall>k. daoGetStorageItem (DAO icm) hash k = None"
    using gone by blast
  have other': "\<forall>h. h \<noteq> ?hn \<and> h \<noteq> hash \<longrightarrow> storage (DAO icm) h = storage (DAO ic) h"
    using other by blast
  show ?thesis
    by (rule exI [of _ ?c], rule exI [of _ icc], rule exI [of _ icm])
       (intro conjI cr mi c_eq crc mc new' gone' other')
qed

lemma example_valid: "createContractStateFromVM exampleDAOContext newParams = Inr newContract"
  using create_newParams [of "[]"] by (simp add: newParams_name newContract_name)

lemma example_new_hash: "Hash160 exampleEnv (Script newContract) = replicate 20 2"
  using Hash160_newContract [of "[]"] by (simp add: newContract_name)

lemma example_DAO: "DAO exampleDAOContext = exampleDAO" by (simp add: exampleDAOContext_def)

lemma example_new_hash_differs: "replicate 20 (2 :: byte) \<noteq> h0" by (simp add: h0_def)

lemma example_caller: "storage (DAO exampleDAOContext) h0 \<noteq> [] \<longrightarrow>
                  (\<exists>cs. contracts (DAO exampleDAOContext) h0 = Some cs \<and> HasStorage cs)"
  by (simp add: example_DAO exampleDAO_def HasStorage_storageContract)

lemma example_fresh: "contracts exampleDAO (replicate 20 2) = None"
  using example_new_hash_differs by (simp add: exampleDAO_def)

lemma example_const_item: "daoGetStorageItem exampleDAO h0 [1] = Some \<lparr>Value = [7], IsConst = True\<rparr>"
  by (simp add: daoGetStorageItem_def exampleDAO_def)

theorem contractMigrate_copies_and_destroys_witness:
  "\<exists>icm. contractMigrate exampleEnv exampleDAOContext h0 newParams =
            Inr (icm, PInterop (IContractState newContract))
         \<and> contracts (DAO icm) h0 = None
         \<and> contracts (DAO icm) (replicate 20 2) = Some newContract
         \<and> daoGetStorageItem exampleDAO h0 [1] = Some \<lparr>Value = [7], IsConst = True\<rparr>
         \<and> daoGetStorageItem (DAO icm) (replicate 20 2) [1] = Some \<lparr>Value = [7], IsConst = False\<rparr>
         \<and> daoGetStorageItem (DAO icm) h0 [1] = None"
proof -
  from contractMigrate_copies_and_destroys [OF example_valid example_caller, of exampleEnv, unfolded example_new_hash example_DAO]
  obtain c icc icm where all:
     "contractCreate exampleEnv exampleDAOContext newParams = Inr (icc, PInterop (IContractState c))
    \<and> contractMigrate exampleEnv exampleDAOContext h0 newParams = Inr (icm, PInterop (IContractState c))
    \<and> c = (case contracts exampleDAO (replicate 20 2) of None \<Rightarrow> newContract | Some c0 \<Rightarrow> c0)
    \<and> contracts (DAO icc) = (contracts exampleDAO)(replicate 20 2 \<mapsto> c)
    \<and> contracts (DAO icm) = (contracts (DAO icc))(h0 := None)
    \<and> (replicate 20 2 \<noteq> h0 \<longrightarrow>
         (\<forall>k. daoGetStorageItem (DAO icm) (replicate 20 2) k =
            (if contracts exampleDAO (replicate 20 2) = None \<and> HasStorage newContract
             then (case daoGetStorageItem exampleDAO h0 k of
                     Some si \<Rightarrow> Some (si\<lparr>IsConst := False\<rparr>)
                   | None \<Rightarrow> daoGetStorageItem exampleDAO (replicate 20 2) k)
             else daoGetStorageItem exampleDAO (replicate 20 2) k)))
    \<and> (\<forall>k. daoGetStorageItem (DAO icm) h0 k = None)
    \<and> (\<forall>h. h \<noteq> replicate 20 2 \<and> h \<noteq> h0 \<longrightarrow> storage (DAO icm) h = storage exampleDAO h)"
    by (elim exE) (rule that)
  from all have m: "contractMigrate exampleEnv exampleDAOContext h0 newParams = Inr (icm, PInterop (IContractState c))"
    by (elim conjE)
  from all have c: "c = (case contracts exampleDAO (replicate 20 2) of None \<Rightarrow> newContract | Some c0 \<Rightarrow> c0)"
    by (elim conjE)
  from all have cc: "contracts (DAO icc) = (contracts exampleDAO)(replicate 20 2 \<mapsto> c)"
    by (elim conjE)
  from all have cm: "contracts (DAO icm) = (contracts (DAO icc))(h0 := None)"
    by (elim conjE)
  from all have new: "replicate 20 2 \<noteq> h0 \<longrightarrow>
         (\<forall>k. daoGetStorageItem (DAO icm) (replicate 20 2) k =
            (if contracts exampleDAO (replicate 20 2) = None \<and> HasStorage newContract
             then (case daoGetStorageItem exampleDAO h0 k of
                     Some si \<Rightarrow> Some (si\<lparr>IsConst := False\<rparr>)
                   | None \<Rightarrow> daoGetStorageItem exampleDAO (replicate 20 2) k)
             else daoGetStorageItem exampleDAO (replicate 20 2) k))"
    by (elim conjE)
  from all have gone: "\<forall>k. daoGetStorageItem (DAO icm) h0 k = None"
    by (elim conjE)
  from c have c': "c = newContract" by (simp only: example_fresh option.case)
  from new example_new_hash_differs have "daoGetStorageItem (DAO icm) (replicate 20 2) [1] =
            (if contracts exampleDAO (replicate 20 2) = None \<and> HasStorage newContract
             then (case daoGetStorageItem exampleDAO h0 [1] of
                     Some si \<Rightarrow> Some (si\<lparr>IsConst := False\<rparr>)
                   | None \<Rightarrow> daoGetStorageItem exampleDAO (replicate 20 2) [1])
             else daoGetStorageItem exampleDAO (replicate 20 2) [1])"
    by blast
  then have copied:
    "daoGetStorageItem (DAO icm) (replicate 20 2) [1] = Some \<lparr>Value = [7], IsConst = False\<rparr>"
    by (simp add: example_fresh example_const_item)
  from cm cc have c1: "contracts (DAO icm) h0 = None" by simp
  from cm cc c' example_new_hash_differs have c2: "contracts (DAO icm) (replicate 20 2) = Some newContract"
    by simp
  from gone have g: "daoGetStorageItem (DAO icm) h0 [1] = None" by blast
  from m c' have m': "contractMigrate exampleEnv exampleDAOContext h0 newParams =
            Inr (icm, PInterop (IContractState newContract))" by (simp only:)
  show ?thesis
    by (rule exI [of _ icm]) (intro conjI m' c1 c2 example_const_item copied g)
qed

subsection \<open>The invariant on storage, and the older \<open>contractDestroy\<close>\<close>

text \<open>
  The invariant behind the assumption on the caller: only a script hash whose contract
  record declares storage holds storage items.
\<close>

definition storageDeclared :: "DAO \<Rightarrow> bool" where
  "storageDeclared d =
     (\<forall>h. storage d h \<noteq> [] \<longrightarrow> (\<exists>cs. contracts d h = Some cs \<and> HasStorage cs))"

lemma map_of_all_None: "(\<forall>k. map_of al k = None) \<Longrightarrow> al = []"
  by (cases al) (auto split: if_splits)

lemma storageDeclared_migrated:
  assumes "storageDeclared d"
  shows "storageDeclared (migrated env d hash nc)"
proof (cases "contracts d (Hash160 env (Script nc))")
  case (Some c)
  with assms show ?thesis by (simp add: migrated_def)
next
  case None
  with assms have "storage d (Hash160 env (Script nc)) = []"
    by (auto simp: storageDeclared_def)
  with assms None show ?thesis
    by (auto simp: storageDeclared_def migrated_def)
qed

lemma storageDeclared_contractDestroyDAO:
  assumes "Trigger ic = Application" and "storageDeclared (DAO ic)"
    and "contractDestroyDAO ic h = Inr ic'"
  shows "storageDeclared (DAO ic')"
proof -
  from contractDestroyDAO_result [OF assms(1), of h] assms(3)
  have c: "contracts (DAO ic') = (contracts (DAO ic))(h := None)"
    and o: "\<forall>h'. h' \<noteq> h \<longrightarrow> storage (DAO ic') h' = storage (DAO ic) h'"
    and g: "\<forall>cs. contracts (DAO ic) h = Some cs \<and> HasStorage cs \<longrightarrow>
                (\<forall>k. map_of (storage (DAO ic') h) k = None)"
    and k: "\<not> (\<exists>cs. contracts (DAO ic) h = Some cs \<and> HasStorage cs) \<longrightarrow>
                storage (DAO ic') h = storage (DAO ic) h"
    by auto
  have "storage (DAO ic') h = []"
  proof (cases "\<exists>cs. contracts (DAO ic) h = Some cs \<and> HasStorage cs")
    case True
    with g have "\<forall>k. map_of (storage (DAO ic') h) k = None" by blast
    then show ?thesis by (rule map_of_all_None)
  next
    case False
    with k assms(2) show ?thesis by (auto simp: storageDeclared_def)
  qed
  with c o assms(2) show ?thesis
    by (auto simp: storageDeclared_def)
qed

lemma storageDeclared_contractMigrate:
  assumes "storageDeclared (DAO ic)" and "contractMigrate env ic hash p = Inr (icm, r)"
  shows "storageDeclared (DAO icm)"
proof -
  from assms(2) obtain nc where v: "createContractStateFromVM ic p = Inr nc"
    by (cases "createContractStateFromVM ic p") (auto simp: contractMigrate_def)
  then have app: "Trigger (ic\<lparr>DAO := migrated env (DAO ic) hash nc\<rparr>) = Application"
    by (simp add: created_Script)
  from assms(2) have d: "contractDestroyDAO (ic\<lparr>DAO := migrated env (DAO ic) hash nc\<rparr>) hash = Inr icm"
    by (simp add: contractMigrate_steps [OF v] split: sum.splits)
  have "storageDeclared (DAO (ic\<lparr>DAO := migrated env (DAO ic) hash nc\<rparr>))"
    using assms(1) by (simp add: storageDeclared_migrated)
  from storageDeclared_contractDestroyDAO [OF app this d] show ?thesis .
qed

lemma storageDeclared_caller:
  "storageDeclared (DAO ic) \<Longrightarrow>
     storage (DAO ic) hash \<noteq> [] \<longrightarrow> (\<exists>cs. contracts (DAO ic) hash = Some cs \<and> HasStorage cs)"
  by (simp add: storageDeclared_def)

text \<open>
  \<open>contractDestroy\<close> of \<open>interop_system.go\<close> has the same shape over the staged store:
  it stages a tombstone for the contract record and, where the contract declares storage,
  for each of its committed storage items; it does nothing where the ledger holds no
  contract under the hash.
\<close>

lemma fold_tombstones_step:
  "fold (\<lambda>(k, si) m'. case deleteStorageItemInStore m' hash k of
           Inl err \<Rightarrow> m' | Inr m'' \<Rightarrow> m'') ((k0, v0) # siMap) m =
   fold (\<lambda>(k, si) m'. case deleteStorageItemInStore m' hash k of
           Inl err \<Rightarrow> m' | Inr m'' \<Rightarrow> m'') siMap
     (m\<lparr>stagedItems := (stagedItems m)((hash, k0) \<mapsto> Tombstone)\<rparr>)"
  by (simp add: deleteStorageItemInStore_def)

lemma fold_tombstones_contracts:
  "stagedContracts (fold (\<lambda>(k, si) m'. case deleteStorageItemInStore m' hash k of
                        Inl err \<Rightarrow> m' | Inr m'' \<Rightarrow> m'') siMap m) = stagedContracts m"
proof (induction siMap arbitrary: m)
  case Nil
  show ?case by simp
next
  case (Cons x siMap)
  obtain k0 v0 where x: "x = (k0, v0)" by (cases x)
  show ?case
    unfolding x fold_tombstones_step by (subst Cons.IH) simp
qed

lemma fold_tombstones_items:
  "stagedItems (fold (\<lambda>(k, si) m'. case deleteStorageItemInStore m' hash k of
                        Inl err \<Rightarrow> m' | Inr m'' \<Rightarrow> m'') siMap m) (h, k) =
     (if h = hash \<and> k \<in> fst ` set siMap then Some Tombstone else stagedItems m (h, k))"
proof (induction siMap arbitrary: m)
  case Nil
  show ?case by simp
next
  case (Cons x siMap)
  obtain k0 v0 where x: "x = (k0, v0)" by (cases x)
  show ?case
    unfolding x fold_tombstones_step by (subst Cons.IH) auto
qed

lemma contractDestroy_stages_tombstones:
  assumes "trigger ic = 0x10" and "GetContractState (bc ic) hash = Some cs"
    and "HasStorage cs" and "GetStorageItems (bc ic) hash = Inr siMap"
  shows "\<exists>ic'. contractDestroy ic hash = Inr ic'
          \<and> bc ic' = bc ic
          \<and> getContractStateFromStore (mem ic') hash = None
          \<and> stagedContracts (mem ic') hash = Some Tombstone
          \<and> (\<forall>k \<in> fst ` set siMap. stagedItems (mem ic') (hash, k) = Some Tombstone)"
  using assms
  by (simp add: contractDestroy_def deleteContractStateInStore_def fold_tombstones_items
      fold_tombstones_contracts
      getContractStateFromStore_def)

lemma contractDestroy_absent:
  assumes "trigger ic = 0x10" and "GetContractState (bc ic) hash = None"
  shows "contractDestroy ic hash = Inr ic"
  using assms by (simp add: contractDestroy_def)

section \<open>Renewing an asset\<close>

lemma years_narrowed: "byte_of_int64 (Int64 n) = (word_of_int n :: byte)"
  by (simp add: byte_of_int64_def Int64_def unsigned_of_int word_of_int_eq_iff)

lemma years_mod: "byte_of_int64 (Int64 (n mod 256)) = byte_of_int64 (Int64 n)"
  by (simp add: years_narrowed word_of_int_eq_iff take_bit_eq_mod)

lemma unat_years: "unat (byte_of_int64 (Int64 n)) = nat (n mod 256)"
  by (simp add: years_narrowed unat_eq_nat_uint uint_word_of_int take_bit_eq_mod)

lemma unat_expiration:
  fixes e1 :: "32 word" and years :: byte
  shows "unat ((ucast e1 :: 64 word) + ucast years * of_nat BlocksPerYear)
           = unat e1 + unat years * 2000000"
proof -
  have e: "unat e1 < 2 ^ 32" using unsigned_less [of e1, where 'a = nat] by simp
  have y: "unat years < 2 ^ 8" using unsigned_less [of years, where 'a = nat] by simp
  have ue: "unat (ucast e1 :: 64 word) = unat e1"
    using e by (simp add: unsigned_ucast_eq take_bit_nat_eq_self)
  have uy: "unat (ucast years :: 64 word) = unat years"
    using y by (simp add: unsigned_ucast_eq take_bit_nat_eq_self)
  have ub: "unat (of_nat BlocksPerYear :: 64 word) = 2000000"
    by (simp add: BlocksPerYear_def)
  from y have small: "unat years * 2000000 < 2 ^ 64" by simp
  have um: "unat ((ucast years :: 64 word) * of_nat BlocksPerYear) = unat years * 2000000"
    using small by (simp add: unat_word_ariths uy ub)
  from e y have "unat e1 + unat years * 2000000 < 2 ^ 64" by simp
  then show ?thesis
    by (simp add: unat_word_ariths(1) ue um)
qed

lemma clamp_expiration:
  fixes x :: "64 word"
  shows "unat (ucast (if x > 0xFFFFFFFF then 0xFFFFFFFF else x) :: 32 word) = min 4294967295 (unat x)"
    and "uint (if x > 0xFFFFFFFF then 0xFFFFFFFF else x) = int (min 4294967295 (unat x))"
proof -
  have lt: "x > 0xFFFFFFFF \<longleftrightarrow> unat x > 4294967295"
    by (simp add: word_less_nat_alt)
  show "unat (ucast (if x > 0xFFFFFFFF then 0xFFFFFFFF else x) :: 32 word) = min 4294967295 (unat x)"
    by (auto simp: lt unsigned_ucast_eq take_bit_nat_eq_self min_def)
  show "uint (if x > 0xFFFFFFFF then 0xFFFFFFFF else x) = int (min 4294967295 (unat x))"
  proof (cases "unat x > 4294967295")
    case True
    then show ?thesis by (simp add: lt)
  next
    case False
    then have "min 4294967295 (unat x) = unat x" by simp
    with False show ?thesis by (simp add: lt)
  qed
qed

text \<open>
  The expiration after a renewal, in the words of the specification, with the two
  roundings of the code: the years are taken modulo 256 and \<open>height + 1\<close> is a 32-bit sum.
\<close>

definition renewedExpiration :: "32 word \<Rightarrow> 32 word \<Rightarrow> int \<Rightarrow> nat" where
  "renewedExpiration expiration height years =
     min 4294967295
       (unat (if expiration < height + 1 then height + 1 else expiration)
          + nat (years mod 256) * 2000000)"

lemma assetRenew_result:
  assumes "Trigger ic = Application" and "assets (DAO ic) (ID as) = Some asset"
  shows "\<exists>new. assetRenew ic (IAsset as) years =
             Inr (ic\<lparr>DAO := (DAO ic)\<lparr>assets := (assets (DAO ic))(ID asset \<mapsto> asset\<lparr>Expiration := new\<rparr>)\<rparr>\<rparr>,
                  PInt (int (renewedExpiration (Expiration asset) (BlockHeight ic) years)))
           \<and> unat new = renewedExpiration (Expiration asset) (BlockHeight ic) years"
proof -
  let ?e1 = "if Expiration asset < BlockHeight ic + 1 then BlockHeight ic + 1 else Expiration asset"
  let ?x = "(ucast ?e1 :: 64 word) + ucast (byte_of_int64 (Int64 years)) * of_nat BlocksPerYear"
  let ?x' = "if ?x > 0xFFFFFFFF then 0xFFFFFFFF else ?x"
  let ?new = "ucast ?x' :: 32 word"
  have ux: "unat ?x = unat ?e1 + nat (years mod 256) * 2000000"
    by (simp only: unat_expiration unat_years)
  have n: "unat ?new = renewedExpiration (Expiration asset) (BlockHeight ic) years"
    by (simp only: clamp_expiration(1) ux renewedExpiration_def)
  have p: "uint ?x' = int (renewedExpiration (Expiration asset) (BlockHeight ic) years)"
    by (simp only: clamp_expiration(2) ux renewedExpiration_def)
  have "assetRenew ic (IAsset as) years =
          Inr (ic\<lparr>DAO := (DAO ic)\<lparr>assets := (assets (DAO ic))(ID asset \<mapsto> asset\<lparr>Expiration := ?new\<rparr>)\<rparr>\<rparr>,
               PInt (uint ?x'))"
    using assms
    by (simp add: assetRenew_def daoGetAssetState_def daoPutAssetState_def Let_def)
  with n p show ?thesis by (intro exI [of _ ?new]) simp
qed

lemma renewedExpiration_ge:
  fixes height expiration :: "32 word" shows
  "unat expiration \<le> renewedExpiration expiration height years"
proof -
  have "unat expiration < 2 ^ 32" using unsigned_less [of expiration, where 'a = nat] by simp
  moreover have "unat expiration \<le> unat (if expiration < height + 1 then height + 1 else expiration)"
    by (simp add: word_less_nat_alt)
  ultimately show ?thesis by (simp add: renewedExpiration_def)
qed

lemma not_below_next_height:
  fixes height expiration :: "32 word"
  assumes "unat height + 1 \<le> unat expiration"
  shows "\<not> expiration < height + 1"
proof -
  have "unat (height + 1) \<le> unat height + 1"
    by (simp add: unat_word_ariths)
  with assms show ?thesis by (simp add: word_less_nat_alt)
qed

lemma next_height_no_wrap:
  fixes height expiration :: "32 word"
  assumes "unat height < 4294967295"
  shows "unat (if expiration < height + 1 then height + 1 else expiration)
           = max (unat expiration) (unat height + 1)"
proof -
  from assms have "unat (height + 1) = unat height + 1"
    by (simp add: unat_word_ariths)
  then show ?thesis by (auto simp: word_less_nat_alt max_def)
qed


text \<open>
  C5 as stated: renew adds \<open>years * 2000000\<close> blocks for every years argument. The
  handler narrows the popped integer to a byte first: with \<open>years = 256\<close> an asset
  that expires at height 100 still expires at height 100, not at 512000100.
\<close>

theorem assetRenew_years_256_counterexample:
  "assetRenew exampleDAOContext (IAsset exampleAsset) 256 =
     Inr (exampleDAOContext\<lparr>DAO := exampleDAO\<lparr>assets :=
              (assets exampleDAO)(replicate 32 0 \<mapsto> exampleAsset\<lparr>Expiration := 100\<rparr>)\<rparr>\<rparr>,
          PInt 100)
   \<and> assetRenew exampleDAOContext (IAsset exampleAsset) 256 \<noteq>
     Inr (exampleDAOContext\<lparr>DAO := exampleDAO\<lparr>assets :=
              (assets exampleDAO)(replicate 32 0 \<mapsto> exampleAsset\<lparr>Expiration := 512000100\<rparr>)\<rparr>\<rparr>,
          PInt 512000100)"
proof -
  have t: "Trigger exampleDAOContext = Application"
    by (simp add: exampleDAOContext_def)
  have a: "assets (DAO exampleDAOContext) (ID exampleAsset) = Some exampleAsset"
    by (simp add: exampleDAOContext_def exampleDAO_def exampleAsset_def)
  from assetRenew_result [OF t a, of 256] obtain new where
    r: "assetRenew exampleDAOContext (IAsset exampleAsset) 256 =
          Inr (exampleDAOContext\<lparr>DAO := (DAO exampleDAOContext)\<lparr>assets :=
                 (assets (DAO exampleDAOContext))(ID exampleAsset \<mapsto> exampleAsset\<lparr>Expiration := new\<rparr>)\<rparr>\<rparr>,
               PInt (int (renewedExpiration (Expiration exampleAsset) (BlockHeight exampleDAOContext) 256)))"
    and n: "unat new = renewedExpiration (Expiration exampleAsset) (BlockHeight exampleDAOContext) 256"
    by blast
  have v: "renewedExpiration (Expiration exampleAsset) (BlockHeight exampleDAOContext) 256 = 100"
    by (simp add: renewedExpiration_def exampleAsset_def exampleDAOContext_def)
  with n have "new = 100" by (simp add: word_unat_eq_iff)
  with r v show ?thesis
    by (simp add: exampleDAOContext_def exampleAsset_def)
qed

text \<open>
  C5, amended: for every asset found in the store and every years argument, renew raises
  the expiration to \<open>height + 1\<close> (a 32-bit sum) if it is below that, adds
  \<open>(years mod 256) * 2000000\<close>, clamps the sum to the largest 32-bit value, stores the
  asset with that expiration and pushes it. Where \<open>height + 1\<close> does not wrap, this is
  \<open>min 4294967295 (max expiration (height + 1) + (years mod 256) * 2000000)\<close>. The
  expiration never decreases and never exceeds \<open>4294967295\<close>, and with
  \<open>years mod 256 = 0\<close> and an expiration of at least \<open>height + 1\<close> it is unchanged.
\<close>

theorem assetRenew_expiration:
  assumes "Trigger ic = Application" and "assets (DAO ic) (ID as) = Some asset"
  shows "\<exists>new. assetRenew ic (IAsset as) years =
             Inr (ic\<lparr>DAO := (DAO ic)\<lparr>assets := (assets (DAO ic))(ID asset \<mapsto> asset\<lparr>Expiration := new\<rparr>)\<rparr>\<rparr>,
                  PInt (int (unat new)))
           \<and> unat new = renewedExpiration (Expiration asset) (BlockHeight ic) years
           \<and> (unat (BlockHeight ic) < 4294967295 \<longrightarrow>
                unat new = min 4294967295
                  (max (unat (Expiration asset)) (unat (BlockHeight ic) + 1)
                     + nat (years mod 256) * 2000000))
           \<and> unat (Expiration asset) \<le> unat new
           \<and> unat new \<le> 4294967295
           \<and> (years mod 256 = 0 \<and> unat (BlockHeight ic) + 1 \<le> unat (Expiration asset) \<longrightarrow>
                new = Expiration asset)"
proof -
  from assetRenew_result [OF assms, of years] obtain new where
    r0: "assetRenew ic (IAsset as) years =
          Inr (ic\<lparr>DAO := (DAO ic)\<lparr>assets := (assets (DAO ic))(ID asset \<mapsto> asset\<lparr>Expiration := new\<rparr>)\<rparr>\<rparr>,
               PInt (int (renewedExpiration (Expiration asset) (BlockHeight ic) years)))"
    and n: "unat new = renewedExpiration (Expiration asset) (BlockHeight ic) years"
    by blast
  from r0 have r: "assetRenew ic (IAsset as) years =
          Inr (ic\<lparr>DAO := (DAO ic)\<lparr>assets := (assets (DAO ic))(ID asset \<mapsto> asset\<lparr>Expiration := new\<rparr>)\<rparr>\<rparr>,
               PInt (int (unat new)))"
    by (simp only: n)
  have a: "unat (BlockHeight ic) < 4294967295 \<longrightarrow>
             unat new = min 4294967295
               (max (unat (Expiration asset)) (unat (BlockHeight ic) + 1)
                  + nat (years mod 256) * 2000000)"
  proof
    assume "unat (BlockHeight ic) < 4294967295"
    from next_height_no_wrap [OF this, of "Expiration asset"]
    show "unat new = min 4294967295
               (max (unat (Expiration asset)) (unat (BlockHeight ic) + 1)
                  + nat (years mod 256) * 2000000)"
      by (simp only: n renewedExpiration_def)
  qed
  have b: "unat (Expiration asset) \<le> unat new"
    by (simp only: n renewedExpiration_ge)
  have c: "unat new \<le> 4294967295"
    by (simp add: n renewedExpiration_def)
  have d: "years mod 256 = 0 \<and> unat (BlockHeight ic) + 1 \<le> unat (Expiration asset) \<longrightarrow>
             new = Expiration asset"
  proof
    assume h: "years mod 256 = 0 \<and> unat (BlockHeight ic) + 1 \<le> unat (Expiration asset)"
    then have nb: "\<not> Expiration asset < BlockHeight ic + 1"
      using not_below_next_height [of "BlockHeight ic" "Expiration asset"] by blast
    have lt: "unat (Expiration asset) < 2 ^ 32"
      using unsigned_less [of "Expiration asset", where 'a = nat] by simp
    from h have y: "years mod 256 = 0" by blast
    have "renewedExpiration (Expiration asset) (BlockHeight ic) years = unat (Expiration asset)"
      using lt by (simp add: renewedExpiration_def nb y)
    with n have "unat new = unat (Expiration asset)" by (simp only:)
    then show "new = Expiration asset" by (simp only: word_unat_eq_iff)
  qed
  show ?thesis
    by (rule exI [of _ new]) (intro conjI r n a b c d)
qed

theorem assetRenew_expiration_witness:
  "assetRenew exampleDAOContext (IAsset exampleAsset) 3 =
     Inr (exampleDAOContext\<lparr>DAO := exampleDAO\<lparr>assets :=
              (assets exampleDAO)(replicate 32 0 \<mapsto> exampleAsset\<lparr>Expiration := 6000100\<rparr>)\<rparr>\<rparr>,
          PInt 6000100)"
proof -
  have t: "Trigger exampleDAOContext = Application"
    by (simp add: exampleDAOContext_def)
  have a: "assets (DAO exampleDAOContext) (ID exampleAsset) = Some exampleAsset"
    by (simp add: exampleDAOContext_def exampleDAO_def exampleAsset_def)
  from assetRenew_expiration [OF t a, of 3] obtain new where
    r: "assetRenew exampleDAOContext (IAsset exampleAsset) 3 =
          Inr (exampleDAOContext\<lparr>DAO := (DAO exampleDAOContext)\<lparr>assets :=
                 (assets (DAO exampleDAOContext))(ID exampleAsset \<mapsto> exampleAsset\<lparr>Expiration := new\<rparr>)\<rparr>\<rparr>,
               PInt (int (unat new)))"
    and n: "unat new = renewedExpiration (Expiration exampleAsset) (BlockHeight exampleDAOContext) 3"
    by blast
  have "unat new = 6000100"
    by (simp add: n renewedExpiration_def exampleAsset_def exampleDAOContext_def)
  then have "new = 6000100" by (simp add: word_unat_eq_iff)
  with r show ?thesis
    by (simp add: exampleDAOContext_def exampleAsset_def)
qed

text \<open>
  C10. \<open>assetRenew\<close> reads its years argument modulo 256: the popped integer is narrowed
  to a byte, whose value is \<open>years mod 256\<close>, so renew with \<open>years\<close> is renew with
  \<open>years mod 256\<close>, and renew with 256 is renew with 0.
\<close>

theorem assetRenew_years_modulo_256:
  "assetRenew ic asInterface years = assetRenew ic asInterface (years mod 256)
   \<and> assetRenew ic asInterface 256 = assetRenew ic asInterface 0
   \<and> unat (byte_of_int64 (Int64 years)) = nat (years mod 256)"
proof -
  have m: "assetRenew ic asInterface y = assetRenew ic asInterface (y mod 256)" for y
    by (simp only: assetRenew_def years_mod)
  from m [of years] m [of 256] show ?thesis
    by (simp add: unat_years)
qed

section \<open>Creating an asset\<close>

lemma goRem_eq_0_iff: "goRem a b = 0 \<longleftrightarrow> b dvd a"
proof -
  have "\<bar>a\<bar> mod \<bar>b\<bar> = 0 \<longleftrightarrow> b dvd a"
    by (simp add: mod_eq_0_iff_dvd)
  moreover have "a = 0 \<Longrightarrow> b dvd a" by simp
  ultimately show ?thesis by (auto simp: goRem_def sgn_if)
qed

lemma precision_exponent:
  fixes precision :: byte
  assumes "\<not> precision > MaxAssetPrecision"
  shows "unat (MaxAssetPrecision - precision) = 8 - unat precision"
proof -
  from assms have "precision \<le> 8" by (simp add: MaxAssetPrecision_def)
  then show ?thesis by (simp add: MaxAssetPrecision_def unat_sub)
qed

lemma assetCreate_Inr:
  assumes "assetCreate env ic p = Inr r"
  shows "Trigger ic = Application
       \<and> Int64 (pop_amount p) \<noteq> 0
       \<and> \<not> sint (Int64 (pop_amount p)) < - 1
       \<and> \<not> (byte_of_int64 (Int64 (pop_atype p)) = Invoice \<and> Int64 (pop_amount p) \<noteq> - 1)
       \<and> \<not> byte_of_int64 (Int64 (pop_precision p)) > MaxAssetPrecision
       \<and> \<not> (byte_of_int64 (Int64 (pop_atype p)) = Share \<and> byte_of_int64 (Int64 (pop_precision p)) \<noteq> 0)
       \<and> \<not> hasFractionalComponent (Int64 (pop_amount p)) (byte_of_int64 (Int64 (pop_precision p)))"
  using assms unfolding assetCreate_def Let_def
  by (simp split: if_splits)

lemma sint_minus_one_iff:
  fixes w :: "64 word"
  shows "sint w = - 1 \<longleftrightarrow> w = - 1"
proof
  assume "sint w = - 1"
  then have "sint w = sint (- 1 :: 64 word)" by (simp add: sint_n1)
  then show "w = - 1" by (rule signed_word_eqI)
next
  assume "w = - 1"
  then show "sint w = - 1" by (simp add: sint_n1)
qed

lemma fractional_iff:
  assumes "\<not> precision > MaxAssetPrecision"
  shows "hasFractionalComponent amount precision \<longleftrightarrow>
           amount \<noteq> - 1 \<and> \<not> (10 ^ (8 - unat precision) dvd sint amount)"
  using precision_exponent [OF assms]
  by (simp add: hasFractionalComponent_def goRem_eq_0_iff)


definition assetParams :: "int \<Rightarrow> int \<Rightarrow> AssetParams" where
  "assetParams amount precision = \<lparr>pop_atype = 0x60, pop_assetName = [], pop_amount = amount,
     pop_precision = precision, pop_owner = replicate 33 2, pop_admin = replicate 20 0,
     pop_issuer = replicate 20 0\<rparr>"

definition createdAsset :: "64 word \<Rightarrow> byte \<Rightarrow> Asset" where
  "createdAsset amount precision = \<lparr>ID = replicate 32 0, AssetType = Token, AssetName = [],
     Amount = amount, Precision = precision, Owner = replicate 33 2, Admin = replicate 20 0,
     Issuer = replicate 20 0, Expiration = 2000011\<rparr>"

lemma assetCreate_example:
  assumes "byte_of_int64 (Int64 precision) = 3" and "Int64 amount = 200000"
  shows "assetCreate exampleEnv exampleDAOContext (assetParams amount precision) =
     Inr (exampleDAOContext\<lparr>DAO := exampleDAO\<lparr>assets :=
            (assets exampleDAO)(replicate 32 0 \<mapsto> createdAsset 200000 3)\<rparr>\<rparr>,
          PInterop (IAsset (createdAsset 200000 3)))"
proof -
  have t: "byte_of_int64 (Int64 0x60) = Token"
    by (simp add: years_narrowed Token_def)
  have f: "\<not> hasFractionalComponent 200000 3"
    by (simp add: hasFractionalComponent_def goRem_def MaxAssetPrecision_def)
  have "length (replicate 33 (2 :: byte)) \<noteq> length [0 :: byte]" by simp
  then have k: "replicate 33 (2 :: byte) \<noteq> [0]" by (rule contrapos_nn) simp
  show ?thesis
    by (simp add: assetCreate_def assetParams_def assms t f k Let_def exampleEnv_def
        exampleDAOContext_def Application_def MaxAssetNameLen_def MaxAssetPrecision_def
        Token_def Share_def Invoice_def Currency_def Uint160DecodeBytesBE_def
        daoPutAssetState_def DefaultAssetLifetime_def BlocksPerYear_def createdAsset_def)
qed


text \<open>
  C6 as stated: asset creation rejects a precision above 8 (and a nonzero precision of a
  Share asset, and an amount with a fractional component below the precision). The handler
  narrows the popped precision to a byte before it checks it: the precision 259 is read as
  3, and the creation of a Token asset with amount 200000 and precision 259 succeeds, with
  precision 3.
\<close>

theorem assetCreate_precision_259_counterexample:
  "(259 :: int) > 8
   \<and> assetCreate exampleEnv exampleDAOContext (assetParams 200000 259) =
       Inr (exampleDAOContext\<lparr>DAO := exampleDAO\<lparr>assets :=
              (assets exampleDAO)(replicate 32 0 \<mapsto> createdAsset 200000 3)\<rparr>\<rparr>,
            PInterop (IAsset (createdAsset 200000 3)))"
proof -
  have a: "byte_of_int64 (Int64 259) = 3" by (simp add: years_narrowed)
  have b: "Int64 200000 = 200000" by (simp add: Int64_def)
  from assetCreate_example [OF a b] show ?thesis by simp
qed

text \<open>
  C6, amended: with the amount, the precision and the asset type taken as the handler
  reads them (the low 64 bits of the popped amount as a signed integer, the low 8 bits of
  the popped precision and type), asset creation rejects with an error any amount that is
  not the sentinel \<open>-1\<close> and is not a multiple of \<open>10 ^ (8 - precision)\<close>; with
  precision 3 the amount 1500 fails, and the amount 200000 passes the fractional check.
  It also rejects the amount 0, a negative amount other than the sentinel, an Invoice asset
  whose amount is not the sentinel, a precision above 8 and a Share asset with a nonzero
  precision.
\<close>

theorem assetCreate_rejects:
  "(Int64 (pop_amount p) \<noteq> - 1
      \<and> \<not> (10 ^ (8 - unat (byte_of_int64 (Int64 (pop_precision p)))) dvd sint (Int64 (pop_amount p)))
      \<longrightarrow> (\<exists>e. assetCreate env ic p = Inl e))
 \<and> (Int64 (pop_amount p) = 0 \<longrightarrow> (\<exists>e. assetCreate env ic p = Inl e))
 \<and> (sint (Int64 (pop_amount p)) < 0 \<and> Int64 (pop_amount p) \<noteq> - 1
      \<longrightarrow> (\<exists>e. assetCreate env ic p = Inl e))
 \<and> (byte_of_int64 (Int64 (pop_atype p)) = Invoice \<and> Int64 (pop_amount p) \<noteq> - 1
      \<longrightarrow> (\<exists>e. assetCreate env ic p = Inl e))
 \<and> (unat (byte_of_int64 (Int64 (pop_precision p))) > 8
      \<longrightarrow> (\<exists>e. assetCreate env ic p = Inl e))
 \<and> (byte_of_int64 (Int64 (pop_atype p)) = Share \<and> byte_of_int64 (Int64 (pop_precision p)) \<noteq> 0
      \<longrightarrow> (\<exists>e. assetCreate env ic p = Inl e))
 \<and> (pop_precision p = 3 \<and> pop_amount p = 1500 \<longrightarrow> (\<exists>e. assetCreate env ic p = Inl e))
 \<and> \<not> hasFractionalComponent (Int64 200000) (byte_of_int64 (Int64 3))"
proof -
  let ?amount = "Int64 (pop_amount p)"
  let ?precision = "byte_of_int64 (Int64 (pop_precision p))"
  let ?atype = "byte_of_int64 (Int64 (pop_atype p))"
  let ?rejects = "\<exists>e. assetCreate env ic p = Inl e"
  have frac: ?rejects
    if "?amount \<noteq> - 1 \<and> \<not> (10 ^ (8 - unat ?precision) dvd sint ?amount)"
  proof (rule not_Inr_is_Inl)
    fix r show "assetCreate env ic p \<noteq> Inr r"
    proof
      assume "assetCreate env ic p = Inr r"
      from assetCreate_Inr [OF this]
      have a: "\<not> ?precision > MaxAssetPrecision"
        and b: "\<not> hasFractionalComponent ?amount ?precision" by blast+
      from b that show False by (simp add: fractional_iff [OF a])
    qed
  qed
  have zero: ?rejects if "?amount = 0"
    using that assetCreate_Inr [of env ic p] by (intro not_Inr_is_Inl) auto
  have neg: ?rejects if "sint ?amount < 0 \<and> ?amount \<noteq> - 1"
  proof -
    from that have "sint ?amount \<noteq> - 1" by (simp add: sint_minus_one_iff)
    with that have "sint ?amount < - 1" by simp
    then show ?thesis
      using assetCreate_Inr [of env ic p] by (intro not_Inr_is_Inl) auto
  qed
  have inv: ?rejects if "?atype = Invoice \<and> ?amount \<noteq> - 1"
    using that assetCreate_Inr [of env ic p] by (intro not_Inr_is_Inl) auto
  have prec: ?rejects if "unat ?precision > 8"
  proof -
    from that have "?precision > MaxAssetPrecision"
      by (simp add: MaxAssetPrecision_def word_less_nat_alt)
    then show ?thesis
      using assetCreate_Inr [of env ic p] by (intro not_Inr_is_Inl) auto
  qed
  have share: ?rejects if "?atype = Share \<and> ?precision \<noteq> 0"
    using that assetCreate_Inr [of env ic p] by (intro not_Inr_is_Inl) auto
  have conc: ?rejects if "pop_precision p = 3 \<and> pop_amount p = 1500"
  proof (rule frac)
    from that show "?amount \<noteq> - 1 \<and> \<not> (10 ^ (8 - unat ?precision) dvd sint ?amount)"
      by (simp add: Int64_def byte_of_int64_def)
  qed
  have ok: "\<not> hasFractionalComponent (Int64 200000) (byte_of_int64 (Int64 3))"
    by (simp add: hasFractionalComponent_def goRem_def Int64_def byte_of_int64_def
        MaxAssetPrecision_def)
  from frac zero neg inv prec share conc ok show ?thesis by blast
qed

theorem assetCreate_rejects_witness:
  "pop_precision (assetParams 1500 3) = 3 \<and> pop_amount (assetParams 1500 3) = 1500
   \<and> (\<exists>e. assetCreate exampleEnv exampleDAOContext (assetParams 1500 3) = Inl e)
   \<and> assetCreate exampleEnv exampleDAOContext (assetParams 200000 3) =
       Inr (exampleDAOContext\<lparr>DAO := exampleDAO\<lparr>assets :=
              (assets exampleDAO)(replicate 32 0 \<mapsto> createdAsset 200000 3)\<rparr>\<rparr>,
            PInterop (IAsset (createdAsset 200000 3)))"
proof -
  have p: "pop_precision (assetParams 1500 3) = 3 \<and> pop_amount (assetParams 1500 3) = 1500"
    by (simp add: assetParams_def)
  have a: "byte_of_int64 (Int64 3) = 3" by (simp add: years_narrowed)
  have b: "Int64 200000 = 200000" by (simp add: Int64_def)
  from assetCreate_rejects [of "assetParams 1500 3" exampleEnv exampleDAOContext] p
  have "\<exists>e. assetCreate exampleEnv exampleDAOContext (assetParams 1500 3) = Inl e"
    by blast
  with p assetCreate_example [OF a b] show ?thesis by (intro conjI) simp_all
qed


end
